theory Spec2Isabelle
  imports Main
begin

section \<open>Syntax trees\<close>

text \<open>
  The extractor of \<^verbatim>\<open>Parser.ts\<close> works on the tree that \<^verbatim>\<open>parse(code)\<close> of \<^verbatim>\<open>@babel/parser\<close>
  returns with its default options. Every Babel node is an object with a \<^verbatim>\<open>type\<close> tag; the
  constructors below are the kinds that the recognizers inspect, with the fields they read.
  \<open>OtherNode kind children\<close> is a node of any other kind (File, Program,
  VariableDeclaration, BlockStatement, ArrowFunctionExpression, ...), with its children in
  the order of Babel's visitor keys. Where the source tests the \<^verbatim>\<open>type\<close> of a node before it
  reads a field, an \<open>OtherNode\<close> fails the test as in the source. Where the source reads a
  field of a node without a test (the installer's object, cast to \<^verbatim>\<open>PackageConfig\<close>), the
  fields of an \<open>OtherNode\<close> are not known: the model stops there with \<open>OutsideModel\<close>.
  The \<^verbatim>\<open>value\<close> of a numeric literal is a natural number.
  \<open>FunctionExpression ps body\<close> holds the function's name and parameters \<open>ps\<close> and the
  statements \<open>body\<close> of its block; \<open>ObjectMethod key ps body\<close> likewise.
\<close>

datatype node =
    CallExpression node "node list"
  | MemberExpression node node
  | Identifier string
  | StringLiteral string
  | NumericLiteral nat
  | ObjectExpression "node list"
  | ObjectProperty node node
  | ObjectMethod node "node list" "node list"
  | SpreadElement node
  | FunctionExpression "node list" "node list"
  | ExpressionStatement node
  | UnaryExpression string node
  | VariableDeclarator node "node option"
  | OtherNode string "node list"

text \<open>
  \<^verbatim>\<open>traverse(source, { enter })\<close> of \<^verbatim>\<open>@babel/types\<close> calls \<^verbatim>\<open>enter\<close> on a node and then
  walks its children in visitor-key order: depth first, pre-order. \<open>preorder\<close> is the
  sequence of nodes on which \<^verbatim>\<open>enter\<close> is called.
\<close>

fun preorder :: "node \<Rightarrow> node list" where
  "preorder (CallExpression c as) =
     CallExpression c as # preorder c @ concat (map preorder as)"
| "preorder (MemberExpression obj p) = MemberExpression obj p # preorder obj @ preorder p"
| "preorder (Identifier x) = [Identifier x]"
| "preorder (StringLiteral s) = [StringLiteral s]"
| "preorder (NumericLiteral k) = [NumericLiteral k]"
| "preorder (ObjectExpression ps) = ObjectExpression ps # concat (map preorder ps)"
| "preorder (ObjectProperty k v) = ObjectProperty k v # preorder k @ preorder v"
| "preorder (ObjectMethod k ps b) =
     ObjectMethod k ps b # preorder k @ concat (map preorder ps)
       @ OtherNode ''BlockStatement'' b # concat (map preorder b)"
| "preorder (SpreadElement a) = SpreadElement a # preorder a"
| "preorder (FunctionExpression ps b) =
     FunctionExpression ps b # concat (map preorder ps)
       @ OtherNode ''BlockStatement'' b # concat (map preorder b)"
| "preorder (ExpressionStatement e) = ExpressionStatement e # preorder e"
| "preorder (UnaryExpression opr a) = UnaryExpression opr a # preorder a"
| "preorder (VariableDeclarator i None) = VariableDeclarator i None # preorder i"
| "preorder (VariableDeclarator i (Some e)) =
     VariableDeclarator i (Some e) # preorder i @ preorder e"
| "preorder (OtherNode k cs) = OtherNode k cs # concat (map preorder cs)"

section \<open>Results and errors\<close>

datatype export_type = Export | ReExport | GlobalBinding | ExportDefault

record ModuleExport =
  ex_name :: string
  ex_type :: export_type
  ex_id :: "nat option"
  ex_from :: "string option"
  ex_as :: "string option"

text \<open>
  \<^verbatim>\<open>ModuleList\<close> and \<^verbatim>\<open>PackageScopeExports\<close> are plain JavaScript objects used as
  dictionaries: maps from the own property keys to their values. The order in which
  \<^verbatim>\<open>Object.keys\<close> lists the keys is not part of the model; the source reads only the number
  of keys.
\<close>

type_synonym ModuleList = "string \<rightharpoonup> ModuleExport list"
type_synonym PackageScopeExports = "string \<rightharpoonup> string list"

record ParsedPackage =
  name :: string
  modules :: ModuleList
  packageScopeExports :: PackageScopeExports
  mainModulePath :: string

text \<open>
  \<open>ModuleExportsError msg node\<close> and \<open>ParserError msg\<close> are the two error classes of the
  source. \<open>TypeError\<close> is JavaScript's own error for reading a property of \<^verbatim>\<open>undefined\<close>,
  which the unchecked accesses of the source raise on a tree of another shape.
  The \<^verbatim>\<open>module.export\<close> branch passes the CommonJS \<^verbatim>\<open>exports\<close> binding instead of a tree
  node to the error: that is \<open>None\<close>.
  \<open>OutsideModel\<close> is no error of the source: it marks an input on which the model does not
  say what the source does (an unchecked read of a field of an \<open>OtherNode\<close>, or the print of
  a number as a key or a name).
\<close>

datatype error =
    ModuleExportsError string "node option"
  | ParserError string
  | TypeError
  | OutsideModel

text \<open>
  The assignment \<^verbatim>\<open>obj[key] = value\<close> of an array \<^verbatim>\<open>value\<close> to a key of an object that was
  created by \<^verbatim>\<open>{}\<close>: the key becomes an own property, or takes the new value when it is one
  already. The key \<^verbatim>\<open>__proto__\<close> alone is the setter inherited from \<^verbatim>\<open>Object.prototype\<close>: the
  assignment replaces the object's prototype and creates no own property.
\<close>

definition assignProperty :: "(string \<rightharpoonup> 'v) \<Rightarrow> string \<Rightarrow> 'v \<Rightarrow> (string \<rightharpoonup> 'v)" where
  "assignProperty obj key v = (if key = ''__proto__'' then obj else obj(key \<mapsto> v))"

definition nth_opt :: "'a list \<Rightarrow> nat \<Rightarrow> 'a option" where
  "nth_opt xs i = (if i < length xs then Some (xs ! i) else None)"

section \<open>Export records of one statement\<close>

text \<open>
  \<^verbatim>\<open>propParser.getKey\<close>: the name of an identifier key, the value of a string key, an error
  for any other key. A node without a \<^verbatim>\<open>key\<close> field makes \<^verbatim>\<open>property.key.type\<close> a TypeError.
\<close>

fun keyOf :: "node \<Rightarrow> node \<Rightarrow> error + string" where
  "keyOf property (Identifier x) = Inr x"
| "keyOf property (StringLiteral s) = Inr s"
| "keyOf property k = Inl (ModuleExportsError ''Unsupported property key type!'' (Some property))"

fun getKey :: "node \<Rightarrow> error + string" where
  "getKey (ObjectProperty k v) = keyOf (ObjectProperty k v) k"
| "getKey (ObjectMethod k ps b) = keyOf (ObjectMethod k ps b) k"
| "getKey property = Inl TypeError"

text \<open>
  The callback of \<^verbatim>\<open>expression.properties.map\<close> in \<^verbatim>\<open>formatExports\<close>. \<open>packageName\<close> and
  \<open>idv\<close> are the \<^verbatim>\<open>value\<close>s of the optional \<^verbatim>\<open>packageName\<close> and \<^verbatim>\<open>id\<close> literals, which
  the caller has checked to be a string and a numeric literal.
\<close>

definition formatExport :: "string option \<Rightarrow> nat option \<Rightarrow> node \<Rightarrow> error + ModuleExport" where
  "formatExport packageName idv property =
     (case property of
        SpreadElement a \<Rightarrow> Inl (ModuleExportsError ''Unexpected property type!'' (Some property))
      | _ \<Rightarrow>
        (case getKey property of
           Inl e \<Rightarrow> Inl e
         | Inr nm \<Rightarrow>
            (let result0 = \<lparr>ex_name = nm, ex_type = Export, ex_id = idv,
                             ex_from = None, ex_as = None\<rparr>;
                 result = (case packageName of
                             None \<Rightarrow> result0
                           | Some f \<Rightarrow> result0\<lparr>ex_type := ReExport, ex_from := Some f\<rparr>)
             in if ex_type result = ReExport then
                  (case property of
                     ObjectMethod k ps b \<Rightarrow> Inr (result\<lparr>ex_type := GlobalBinding\<rparr>)
                   | ObjectProperty k content \<Rightarrow>
                       (case content of
                          StringLiteral v \<Rightarrow>
                            Inr (if v \<noteq> ex_name result then result\<lparr>ex_as := Some v\<rparr> else result)
                        | _ \<Rightarrow> Inl (ModuleExportsError
                                 ''Received unsupported result type in re-export!'' (Some property)))
                   | _ \<Rightarrow> Inr result)
                else Inr result)))"

text \<open>\<^verbatim>\<open>Array.prototype.map\<close> with a callback that may throw: the first throw ends the map.\<close>

fun mapE :: "('a \<Rightarrow> error + 'b) \<Rightarrow> 'a list \<Rightarrow> error + 'b list" where
  "mapE f [] = Inr []"
| "mapE f (x # xs) =
     (case f x of
        Inl e \<Rightarrow> Inl e
      | Inr y \<Rightarrow> (case mapE f xs of Inl e \<Rightarrow> Inl e | Inr ys \<Rightarrow> Inr (y # ys)))"

definition formatExports :: "node list \<Rightarrow> string option \<Rightarrow> nat option \<Rightarrow> error + ModuleExport list" where
  "formatExports properties packageName idv = mapE (formatExport packageName idv) properties"

text \<open>The test \<^verbatim>\<open>callee.object.name.match(/^module\d*$/)\<close>.\<close>

definition is_digit :: "char \<Rightarrow> bool" where
  "is_digit c = (c \<in> set ''0123456789'')"

definition is_module_name :: "string \<Rightarrow> bool" where
  "is_module_name s = (take 6 s = ''module'' \<and> list_all is_digit (drop 6 s))"

definition some_result :: "error + 'a \<Rightarrow> error + 'a option" where
  "some_result r = (case r of Inl e \<Rightarrow> Inl e | Inr x \<Rightarrow> Inr (Some x))"

text \<open>
  The part of \<^verbatim>\<open>readModuleExports\<close> below the test for a call expression: a call
  \<^verbatim>\<open>module.exportDefault(x)\<close>, \<^verbatim>\<open>module.export({...})\<close> or \<^verbatim>\<open>module.link('from', {...}, id)\<close>.
  \<open>None\<close> is the source's \<^verbatim>\<open>return undefined\<close>.
\<close>

definition moduleLink :: "node list \<Rightarrow> error + ModuleExport list option" where
  "moduleLink args =
     (case nth_opt args 0 of
        None \<Rightarrow> Inl TypeError
      | Some a0 \<Rightarrow>
        (case a0 of
           StringLiteral frm \<Rightarrow>
             (case nth_opt args 1 of
                None \<Rightarrow> Inl TypeError
              | Some a1 \<Rightarrow>
                (case a1 of
                   ObjectExpression props \<Rightarrow>
                     (case nth_opt args 2 of
                        None \<Rightarrow> Inl TypeError
                      | Some a2 \<Rightarrow>
                        (case a2 of
                           NumericLiteral i \<Rightarrow>
                             some_result (formatExports props (Some frm) (Some i))
                         | _ \<Rightarrow> Inl (ModuleExportsError
                             ''Expected NumericLiteral as the last argument in module.link()!''
                             (Some a0))))
                 | _ \<Rightarrow> Inl (ModuleExportsError
                     ''Expected ObjectExpression as the second argument in module.link()!''
                     (Some a0))))
         | _ \<Rightarrow> Inl (ModuleExportsError
             ''Expected string as the first argument in module.link()!'' (Some a0))))"

definition moduleCall :: "node \<Rightarrow> node list \<Rightarrow> error + ModuleExport list option" where
  "moduleCall callee args =
     (case callee of
        MemberExpression obj prop \<Rightarrow>
          (case obj of
             Identifier objname \<Rightarrow>
               if \<not> is_module_name objname then Inr None
               else (case prop of
                  Identifier methodName \<Rightarrow>
                    if methodName = ''exportDefault'' then
                      (case nth_opt args 0 of
                         None \<Rightarrow> Inl TypeError
                       | Some a0 \<Rightarrow>
                         (case a0 of
                            Identifier x \<Rightarrow>
                              Inr (Some [\<lparr>ex_name = x, ex_type = ExportDefault, ex_id = None,
                                          ex_from = None, ex_as = None\<rparr>])
                          | _ \<Rightarrow> Inl (ModuleExportsError
                                ''Unexpected default export value!'' (Some a0))))
                    else if methodName = ''export'' then
                      (case nth_opt args 0 of
                         None \<Rightarrow> Inl TypeError
                       | Some a0 \<Rightarrow>
                         (case a0 of
                            ObjectExpression props \<Rightarrow>
                              some_result (formatExports props None None)
                          | _ \<Rightarrow> Inl (ModuleExportsError ''Unexpected export type!'' None)))
                    else if methodName \<noteq> ''link'' then Inr None
                    else moduleLink args
                | _ \<Rightarrow> Inr None)
           | _ \<Rightarrow> Inr None)
      | _ \<Rightarrow> Inr None)"

text \<open>
  \<^verbatim>\<open>readModuleExports\<close> and \<^verbatim>\<open>handleMainModule\<close> call each other; \<open>readBody\<close> is the
  \<^verbatim>\<open>forEach\<close> loop that both \<^verbatim>\<open>handleMainModule\<close> and \<^verbatim>\<open>traverseModules\<close> run over the
  statements of a function body, pushing each statement's records onto the list built so
  far. \<^verbatim>\<open>handleMainModule\<close> takes the statement's \<^verbatim>\<open>expression\<close>.
\<close>

fun readModuleExports :: "node \<Rightarrow> error + ModuleExport list option"
  and handleMainModule :: "node \<Rightarrow> error + ModuleExport list option"
  and readBody :: "node list \<Rightarrow> ModuleExport list \<Rightarrow> error + ModuleExport list"
where
  "readModuleExports (ExpressionStatement (UnaryExpression opr a)) =
     handleMainModule (UnaryExpression opr a)"
| "readModuleExports (ExpressionStatement (CallExpression callee args)) = moduleCall callee args"
| "readModuleExports nd = Inr None"
| "handleMainModule
     (UnaryExpression opr (CallExpression (MemberExpression (FunctionExpression ps body) p) args)) =
     (if opr \<noteq> ''!'' then Inr None else some_result (readBody body []))"
| "handleMainModule expression = Inr None"
| "readBody [] exportList = Inr exportList"
| "readBody (nd # rest) exportList =
     (case readModuleExports nd of
        Inl e \<Rightarrow> Inl e
      | Inr None \<Rightarrow> readBody rest exportList
      | Inr (Some exports) \<Rightarrow> readBody rest (exportList @ exports))"

section \<open>Package-scope exports and the main module path\<close>

definition packageExportKey :: "node \<Rightarrow> error + string" where
  "packageExportKey property =
     (case property of
        SpreadElement a \<Rightarrow> Inl (ModuleExportsError
          ''Unexpected property type received for package-scope exports!'' (Some property))
      | _ \<Rightarrow> getKey property)"

text \<open>
  \<^verbatim>\<open>parsePackageScope\<close> from the point where the call is known to be \<^verbatim>\<open>Package._define(...)\<close>.
  The result \<open>(name, exports)\<close> is the source's \<^verbatim>\<open>{ name, exports }\<close>.
\<close>

definition packageScopeArgs :: "node list \<Rightarrow> error + (string \<times> string list) option" where
  "packageScopeArgs args =
     (let packageExports =
            (case nth_opt args 2 of
               Some a2 \<Rightarrow> Some a2
             | None \<Rightarrow>
                 (case nth_opt args 1 of
                    Some (ObjectExpression ps) \<Rightarrow> Some (ObjectExpression ps)
                  | _ \<Rightarrow> None))
      in case packageExports of
           None \<Rightarrow> Inr None
         | Some pe \<Rightarrow>
            (case pe of
               ObjectExpression properties \<Rightarrow>
                 (case nth_opt args 0 of
                    None \<Rightarrow> Inl TypeError
                  | Some packageName \<Rightarrow>
                     (case packageName of
                        StringLiteral nm \<Rightarrow>
                          (case mapE packageExportKey properties of
                             Inl e \<Rightarrow> Inl e
                           | Inr exports \<Rightarrow> Inr (Some (nm, exports)))
                      | _ \<Rightarrow> Inl (ModuleExportsError
                            ''Unexpected type received for package name!'' (Some packageName))))
             | _ \<Rightarrow> Inl (ModuleExportsError
                   ''Unexpected type received for package-scope exports argument!'' (Some pe))))"

definition parsePackageScope :: "node \<Rightarrow> error + (string \<times> string list) option" where
  "parsePackageScope nd =
     (case nd of
        CallExpression callee args \<Rightarrow>
          (case callee of
             MemberExpression obj prop \<Rightarrow>
               (case obj of
                  Identifier objname \<Rightarrow>
                    if objname \<noteq> ''Package'' then Inr None
                    else (case prop of
                            Identifier pname \<Rightarrow>
                              if pname \<noteq> ''_define'' then Inr None else packageScopeArgs args
                          | _ \<Rightarrow> Inr None)
                | _ \<Rightarrow> Inr None)
           | _ \<Rightarrow> Inr None)
      | _ \<Rightarrow> Inr None)"

definition readMainModulePath :: "node \<Rightarrow> string option" where
  "readMainModulePath nd =
     (case nd of
        VariableDeclarator idn init \<Rightarrow>
          (case idn of
             Identifier x \<Rightarrow>
               if x \<noteq> ''exports'' then None
               else (case init of
                       Some (CallExpression callee args) \<Rightarrow>
                         (case callee of
                            Identifier r \<Rightarrow>
                              if r \<noteq> ''require'' then None
                              else (case nth_opt args 0 of
                                      Some (StringLiteral v) \<Rightarrow> Some v
                                    | _ \<Rightarrow> None)
                          | _ \<Rightarrow> None)
                     | _ \<Rightarrow> None)
           | _ \<Rightarrow> None)
      | _ \<Rightarrow> None)"

section \<open>The installer call\<close>

text \<open>
  \<^verbatim>\<open>property.key.value.toString()\<close>, read without a test of the key's type. A string literal
  gives its value. A node without a \<^verbatim>\<open>value\<close> field gives \<^verbatim>\<open>undefined\<close>, whose \<^verbatim>\<open>toString\<close>
  is a TypeError. The print of a number is not modelled, nor the \<^verbatim>\<open>value\<close> of an \<open>OtherNode\<close>
  (a boolean or bigint literal has one); a property has a \<^verbatim>\<open>value\<close> that is a node.
\<close>

fun keyString :: "node \<Rightarrow> error + string" where
  "keyString (StringLiteral s) = Inr s"
| "keyString (NumericLiteral n) = Inl OutsideModel"
| "keyString (ObjectProperty k v) = Inl OutsideModel"
| "keyString (OtherNode kind children) = Inl OutsideModel"
| "keyString k = Inl TypeError"

text \<open>
  \<^verbatim>\<open>packageName.key.value\<close>, the package's name, read without a test of the key's type. A
  node without a \<^verbatim>\<open>value\<close> field gives \<^verbatim>\<open>undefined\<close>, which the source treats as it treats
  the empty string, in \<^verbatim>\<open>result.name || packageScope.name\<close> and in \<^verbatim>\<open>!result.name\<close>: it is
  the empty string in the model.
\<close>

fun keyValue :: "node \<Rightarrow> error + string" where
  "keyValue (StringLiteral s) = Inr s"
| "keyValue (NumericLiteral n) = Inl OutsideModel"
| "keyValue (ObjectProperty k v) = Inl OutsideModel"
| "keyValue (OtherNode kind children) = Inl OutsideModel"
| "keyValue k = Inr []"

text \<open>
  The closure \<^verbatim>\<open>traverseModules\<close>, with the \<^verbatim>\<open>modules\<close> object it writes to passed through
  as \<open>mods\<close>. The source reads \<^verbatim>\<open>property.key.value.toString()\<close> first, then
  \<^verbatim>\<open>property.value.type\<close>, then, of a value that is no object literal,
  \<^verbatim>\<open>property.value.body.body.forEach\<close>, all without a test. An object method has a key and
  no \<^verbatim>\<open>value\<close>; a spread element has no \<^verbatim>\<open>key\<close>; of the modelled kinds only a function
  expression and an object method have a \<^verbatim>\<open>body\<close>, and an object method is no value of a
  property.
\<close>

fun traverseModules :: "node list \<Rightarrow> string \<Rightarrow> ModuleList \<Rightarrow> error + ModuleList" where
  "traverseModules [] parentPath mods = Inr mods"
| "traverseModules (ObjectProperty key (ObjectExpression ps) # rest) parentPath mods =
     (case keyString key of
        Inl e \<Rightarrow> Inl e
      | Inr k \<Rightarrow>
         (case traverseModules ps ((parentPath @ k) @ ''/'') mods of
            Inl e \<Rightarrow> Inl e
          | Inr mods' \<Rightarrow> traverseModules rest parentPath mods'))"
| "traverseModules (ObjectProperty key (FunctionExpression params body) # rest) parentPath mods =
     (case keyString key of
        Inl e \<Rightarrow> Inl e
      | Inr k \<Rightarrow>
         (case readBody body [] of
            Inl e \<Rightarrow> Inl e
          | Inr exportList \<Rightarrow>
              traverseModules rest parentPath (assignProperty mods (parentPath @ k) exportList)))"
| "traverseModules (ObjectProperty key (ObjectMethod k' ps b) # rest) parentPath mods =
     (case keyString key of Inl e \<Rightarrow> Inl e | Inr k \<Rightarrow> Inl OutsideModel)"
| "traverseModules (ObjectProperty key (OtherNode kind children) # rest) parentPath mods =
     (case keyString key of Inl e \<Rightarrow> Inl e | Inr k \<Rightarrow> Inl OutsideModel)"
| "traverseModules (ObjectProperty key v # rest) parentPath mods =
     (case keyString key of Inl e \<Rightarrow> Inl e | Inr k \<Rightarrow> Inl TypeError)"
| "traverseModules (ObjectMethod key ps b # rest) parentPath mods =
     (case keyString key of Inl e \<Rightarrow> Inl e | Inr k \<Rightarrow> Inl TypeError)"
| "traverseModules (OtherNode kind children # rest) parentPath mods = Inl OutsideModel"
| "traverseModules (property # rest) parentPath mods = Inl TypeError"

text \<open>
  \<^verbatim>\<open>x.value.properties\<close> for a property \<open>x\<close> that may be \<^verbatim>\<open>undefined\<close>: of the modelled
  kinds only an \<^verbatim>\<open>ObjectProperty\<close> has a \<^verbatim>\<open>value\<close> and only an \<^verbatim>\<open>ObjectExpression\<close> has
  \<^verbatim>\<open>properties\<close>; without them the next read is a TypeError.
\<close>

fun valueProperties :: "node option \<Rightarrow> error + node list" where
  "valueProperties (Some (ObjectProperty k (ObjectExpression ps))) = Inr ps"
| "valueProperties (Some (ObjectProperty k (OtherNode kind children))) = Inl OutsideModel"
| "valueProperties (Some (OtherNode kind children)) = Inl OutsideModel"
| "valueProperties x = Inl TypeError"

text \<open>
  \<^verbatim>\<open>parseMeteorInstall\<close> from the point where the call is known to be \<^verbatim>\<open>meteorInstall(...)\<close>.
  \<open>packageConfig\<close> holds the properties of the first argument, \<open>nodeModulesProperties\<close>
  those of \<^verbatim>\<open>node_modules.value\<close>, \<open>meteorProperties\<close> those of \<^verbatim>\<open>meteor.value\<close>, whose first
  is \<^verbatim>\<open>packageName\<close>. The modules are traversed before the name is read; a \<^verbatim>\<open>packageName\<close>
  whose value has no \<^verbatim>\<open>properties\<close> makes \<^verbatim>\<open>properties.forEach\<close> a TypeError.
\<close>

definition installerCall :: "node list \<Rightarrow> error + (string \<times> ModuleList) option" where
  "installerCall args =
     (case nth_opt args 0 of
        Some (ObjectExpression packageConfig) \<Rightarrow>
          (case valueProperties (nth_opt packageConfig 0) of
             Inl e \<Rightarrow> Inl e
           | Inr nodeModulesProperties \<Rightarrow>
              (case valueProperties (nth_opt nodeModulesProperties 0) of
                 Inl e \<Rightarrow> Inl e
               | Inr meteorProperties \<Rightarrow>
                  (case nth_opt meteorProperties 0 of
                     Some (ObjectProperty key (ObjectExpression packageModules)) \<Rightarrow>
                       (case traverseModules packageModules [] Map.empty of
                          Inl e \<Rightarrow> Inl e
                        | Inr mods \<Rightarrow>
                           (case keyValue key of
                              Inl e \<Rightarrow> Inl e
                            | Inr nm \<Rightarrow> Inr (Some (nm, mods))))
                   | packageName \<Rightarrow>
                       (case valueProperties packageName of
                          Inl e \<Rightarrow> Inl e
                        | Inr packageModules \<Rightarrow> Inl TypeError))))
      | Some (OtherNode kind children) \<Rightarrow> Inl OutsideModel
      | _ \<Rightarrow> Inl TypeError)"

text \<open>The result \<open>(name, modules)\<close> is the source's \<^verbatim>\<open>{ name, modules }\<close>.\<close>

definition parseMeteorInstall :: "node \<Rightarrow> error + (string \<times> ModuleList) option" where
  "parseMeteorInstall nd =
     (case nd of
        CallExpression callee args \<Rightarrow>
          (case callee of
             Identifier c \<Rightarrow> if c \<noteq> ''meteorInstall'' then Inr None else installerCall args
           | _ \<Rightarrow> Inr None)
      | _ \<Rightarrow> Inr None)"

section \<open>The traversal and the validation\<close>

text \<open>
  The value of \<^verbatim>\<open>readMainModulePath(node) || result.mainModulePath\<close>, where \<open>cur\<close> is
  \<^verbatim>\<open>result.mainModulePath\<close>: the empty string is falsy.
\<close>

definition stepMainModulePath :: "string \<Rightarrow> node \<Rightarrow> string" where
  "stepMainModulePath cur nd =
     (case readMainModulePath nd of
        Some p \<Rightarrow> if p \<noteq> [] then p else cur
      | None \<Rightarrow> cur)"

text \<open>The \<^verbatim>\<open>enter\<close> handler of \<^verbatim>\<open>parseSource\<close>, on the accumulated \<^verbatim>\<open>result\<close>.\<close>

definition enter :: "ParsedPackage \<Rightarrow> node \<Rightarrow> error + ParsedPackage" where
  "enter result nd =
     (case parsePackageScope nd of
        Inl e \<Rightarrow> Inl e
      | Inr packageScope \<Rightarrow>
         (case parseMeteorInstall nd of
            Inl e \<Rightarrow> Inl e
          | Inr meteorInstall \<Rightarrow>
             (let r1 = result\<lparr>mainModulePath :=
                         stepMainModulePath (mainModulePath result) nd\<rparr>;
                  r2 = (case meteorInstall of
                          None \<Rightarrow> r1
                        | Some (nm, ms) \<Rightarrow> r1\<lparr>name := nm, modules := ms\<rparr>);
                  r3 = (case packageScope of
                          None \<Rightarrow> r2
                        | Some (pn, exports) \<Rightarrow>
                            r2\<lparr>name := (if name r2 \<noteq> [] then name r2 else pn),
                               packageScopeExports :=
                                 assignProperty (packageScopeExports r2) pn exports\<rparr>)
              in Inr r3)))"

fun traverse :: "node list \<Rightarrow> ParsedPackage \<Rightarrow> error + ParsedPackage" where
  "traverse [] result = Inr result"
| "traverse (nd # rest) result =
     (case enter result nd of Inl e \<Rightarrow> Inl e | Inr result' \<Rightarrow> traverse rest result')"

definition emptyResult :: ParsedPackage where
  "emptyResult =
     \<lparr>name = [], modules = Map.empty, packageScopeExports = Map.empty, mainModulePath = []\<rparr>"

definition parseSource :: "node \<Rightarrow> error + ParsedPackage" where
  "parseSource source = traverse (preorder source) emptyResult"

text \<open>
  \<^verbatim>\<open>parseMeteorPackage\<close> on the parsed tree of the file's text; the returned
  \<^verbatim>\<open>MeteorPackage\<close> wraps the result, which is what the model returns.
  \<^verbatim>\<open>Object.keys(x).length\<close> is zero when \<open>x\<close> has no own key.
\<close>

definition parseMeteorPackage :: "string \<Rightarrow> node \<Rightarrow> error + ParsedPackage" where
  "parseMeteorPackage filePath source =
     (case parseSource source of
        Inl e \<Rightarrow>
          (case e of
             ModuleExportsError msg nd \<Rightarrow>
               Inl (ParserError ''Failed to parse source code. See previous error.'')
           | _ \<Rightarrow> Inl e)
      | Inr result \<Rightarrow>
          if name result = [] then
            Inl (ParserError (''Could not extract name from package in: '' @ filePath))
          else if dom (modules result) = {} \<and> dom (packageScopeExports result) = {} then
            Inl (ParserError
              (''No modules or package-scope exports could be extracted from package: ''
                 @ name result))
          else Inr result)"

section \<open>Terms of the specification\<close>

text \<open>
  An installer call is a call of the identifier \<^verbatim>\<open>meteorInstall\<close>; a package-scope call
  is a call of \<^verbatim>\<open>Package._define\<close>.
\<close>

definition isInstallerCall :: "node \<Rightarrow> bool" where
  "isInstallerCall nd =
     (case nd of
        CallExpression (Identifier c) args \<Rightarrow> c = ''meteorInstall''
      | _ \<Rightarrow> False)"

definition isDefineCall :: "node \<Rightarrow> bool" where
  "isDefineCall nd =
     (case nd of
        CallExpression (MemberExpression (Identifier obj) (Identifier p)) args \<Rightarrow>
          obj = ''Package'' \<and> p = ''_define''
      | _ \<Rightarrow> False)"


text \<open>An object literal.\<close>

definition isObjectLiteral :: "node \<Rightarrow> bool" where
  "isObjectLiteral nd = (case nd of ObjectExpression ps \<Rightarrow> True | _ \<Rightarrow> False)"

text \<open>DEF
  The string literals of the declarators \<^verbatim>\<open>exports = require("...")\<close> among the nodes \<open>ns\<close>,
  in order, without the empty ones.
\<close>

definition mainModuleLiterals :: "node list \<Rightarrow> string list" where
  "mainModuleLiterals ns = filter (\<lambda>p. p \<noteq> []) (List.map_filter readMainModulePath ns)"

text \<open>DEF
  The declarators of the variable declarations that are statements of the program itself
  (not nested in a function).
\<close>

fun programBody :: "node \<Rightarrow> node list" where
  "programBody (OtherNode k [OtherNode k' stmts]) =
     (if k = ''File'' \<and> k' = ''Program'' then stmts else [])"
| "programBody nd = []"

fun declarators :: "node \<Rightarrow> node list" where
  "declarators (OtherNode k ds) = (if k = ''VariableDeclaration'' then ds else [])"
| "declarators nd = []"

definition topLevelDeclarators :: "node \<Rightarrow> node list" where
  "topLevelDeclarators source = concat (map declarators (programBody source))"

text \<open>DEF
  The leaf modules of the properties \<open>ps\<close> of a package object, in source order: for every
  function-valued property at any depth, the keys on the way from the package object down to
  it, and the statements of the function's body. A nested object literal is a directory.
\<close>

fun leafModules :: "node list \<Rightarrow> (string list \<times> node list) list" where
  "leafModules [] = []"
| "leafModules (ObjectProperty (StringLiteral k) (ObjectExpression ps) # rest) =
     map (\<lambda>(segs, body). (k # segs, body)) (leafModules ps) @ leafModules rest"
| "leafModules (ObjectProperty (StringLiteral k) (FunctionExpression params body) # rest) =
     ([k], body) # leafModules rest"
| "leafModules (property # rest) = leafModules rest"

text \<open>The keys of a path joined with slashes.\<close>

fun joinSlash :: "string list \<Rightarrow> string" where
  "joinSlash [] = []"
| "joinSlash [k] = k"
| "joinSlash (k # ks) = k @ ''/'' @ joinSlash ks"

definition leafPaths :: "node list \<Rightarrow> string list" where
  "leafPaths ps = map (\<lambda>(segs, body). joinSlash segs) (leafModules ps)"

text \<open>DEF
  The records of one statement: those that \<^verbatim>\<open>readModuleExports\<close> returns, none when it returns
  \<^verbatim>\<open>undefined\<close>.
\<close>

definition statementRecords :: "node \<Rightarrow> ModuleExport list" where
  "statementRecords nd =
     (case readModuleExports nd of Inr (Some exports) \<Rightarrow> exports | _ \<Rightarrow> [])"

text \<open>DEF
  The entries that the leaf modules stand for: the path under the prefix \<open>parentPath\<close> and
  the records of the body's statements, in source order.
\<close>

definition leafEntries :: "string \<Rightarrow> node list \<Rightarrow> (string \<times> ModuleExport list) list" where
  "leafEntries parentPath ps =
     map (\<lambda>(segs, body). (parentPath @ joinSlash segs, concat (map statementRecords body)))
       (leafModules ps)"

text \<open>The assignment \<^verbatim>\<open>modules[path] = exportList\<close> of one entry \<open>(path, exportList)\<close>.\<close>

definition put :: "ModuleList \<Rightarrow> string \<times> ModuleExport list \<Rightarrow> ModuleList" where
  "put mods e = assignProperty mods (fst e) (snd e)"

text \<open>
  The properties of a package object are well formed when each is a property with a string
  literal as key that holds either a well-formed nested object literal or a function none
  of whose statements makes \<^verbatim>\<open>readModuleExports\<close> throw.
\<close>

fun wellFormedModules :: "node list \<Rightarrow> bool" where
  "wellFormedModules [] = True"
| "wellFormedModules (ObjectProperty (StringLiteral k) (ObjectExpression ps) # rest) =
     (wellFormedModules ps \<and> wellFormedModules rest)"
| "wellFormedModules (ObjectProperty (StringLiteral k) (FunctionExpression params body) # rest) =
     (list_all (\<lambda>s. \<not> isl (readModuleExports s)) body \<and> wellFormedModules rest)"
| "wellFormedModules (property # rest) = False"

section \<open>Statements and calls\<close>

text \<open>The statement \<^verbatim>\<open>m.link('frm', { bindings }, i);\<close> and the call \<^verbatim>\<open>Package._define(args)\<close>.\<close>

definition linkStatement :: "string \<Rightarrow> string \<Rightarrow> node list \<Rightarrow> nat \<Rightarrow> node" where
  "linkStatement m frm bindings i =
     ExpressionStatement
       (CallExpression (MemberExpression (Identifier m) (Identifier ''link''))
          [StringLiteral frm, ObjectExpression bindings, NumericLiteral i])"

definition defineCall :: "node list \<Rightarrow> node" where
  "defineCall args =
     CallExpression (MemberExpression (Identifier ''Package'') (Identifier ''_define'')) args"

text \<open>DEF
  The statements \<^verbatim>\<open>module.export({ props });\<close> and \<^verbatim>\<open>module.exportDefault(x);\<close>, and the
  main-module wrapper \<^verbatim>\<open>!function () { stmts }.call(this);\<close>.
\<close>

definition exportStatement :: "node list \<Rightarrow> node" where
  "exportStatement props =
     ExpressionStatement
       (CallExpression (MemberExpression (Identifier ''module'') (Identifier ''export''))
          [ObjectExpression props])"

definition exportDefaultStatement :: "string \<Rightarrow> node" where
  "exportDefaultStatement x =
     ExpressionStatement
       (CallExpression (MemberExpression (Identifier ''module'') (Identifier ''exportDefault''))
          [Identifier x])"

definition mainModuleWrapper :: "node list \<Rightarrow> node list \<Rightarrow> node \<Rightarrow> node list \<Rightarrow> node" where
  "mainModuleWrapper params stmts p args =
     ExpressionStatement
       (UnaryExpression ''!''
          (CallExpression (MemberExpression (FunctionExpression params stmts) p) args))"

text \<open>The statement \<^verbatim>\<open>var exports = require("p");\<close>.\<close>

definition exportsRequire :: "string \<Rightarrow> node" where
  "exportsRequire p =
     OtherNode ''VariableDeclaration''
       [VariableDeclarator (Identifier ''exports'')
          (Some (CallExpression (Identifier ''require'') [StringLiteral p]))]"

text \<open>DEF
  The installer call
  \<^verbatim>\<open>meteorInstall({ "node_modules": { "meteor": { "nm": { packageModules } } } }, extra)\<close>:
  the three-level prefix down to the package-name key \<open>nm\<close>, a string literal.
\<close>

definition installer :: "string \<Rightarrow> node list \<Rightarrow> node list \<Rightarrow> node" where
  "installer nm packageModules extra =
     CallExpression (Identifier ''meteorInstall'')
       (ObjectExpression
          [ObjectProperty (StringLiteral ''node_modules'') (ObjectExpression
             [ObjectProperty (StringLiteral ''meteor'') (ObjectExpression
                [ObjectProperty (StringLiteral nm) (ObjectExpression packageModules)])])]
        # extra)"


section \<open>Example trees\<close>

text \<open>The bindings \<^verbatim>\<open>{ Meteor: "MyMeteor", "Tracker": "Tracker", Meteor(v) {} }\<close>.\<close>

definition linkExample :: "node list" where
  "linkExample =
     [ObjectProperty (Identifier ''Meteor'') (StringLiteral ''MyMeteor''),
      ObjectProperty (StringLiteral ''Tracker'') (StringLiteral ''Tracker''),
      ObjectMethod (Identifier ''Meteor'') [Identifier ''v''] []]"

text \<open>The tree of the one-statement program \<^verbatim>\<open>foo();\<close>.\<close>

definition fooProgram :: node where
  "fooProgram =
     OtherNode ''File'' [OtherNode ''Program''
       [ExpressionStatement (CallExpression (Identifier ''foo'') [])]]"

text \<open>The tree of the empty program.\<close>

definition emptyProgram :: node where
  "emptyProgram = OtherNode ''File'' [OtherNode ''Program'' []]"


text \<open>The tree of the program \<^verbatim>\<open>Package._define("pkg", exports, scopeExports);\<close>.\<close>

definition badDefineArgs :: "node list" where
  "badDefineArgs = [StringLiteral ''pkg'', Identifier ''exports'', Identifier ''scopeExports'']"

definition badDefineProgram :: node where
  "badDefineProgram =
     OtherNode ''File'' [OtherNode ''Program'' [ExpressionStatement (defineCall badDefineArgs)]]"

text \<open>The program \<^verbatim>\<open>var exports = require("/a.js"); var exports = require("/b.js");\<close>.\<close>

definition twoExportsProgram :: node where
  "twoExportsProgram =
     OtherNode ''File'' [OtherNode ''Program'' [exportsRequire ''/a.js'', exportsRequire ''/b.js'']]"

text \<open>The program \<^verbatim>\<open>var exports = require("/a.js"); var exports = require("");\<close>.\<close>

definition emptyExportsProgram :: node where
  "emptyExportsProgram =
     OtherNode ''File'' [OtherNode ''Program'' [exportsRequire ''/a.js'', exportsRequire []]]"

text \<open>DEF
  The program
  \<^verbatim>\<open>var exports = require("/a.js"); var exports = require("/b.js");
  (function () { var exports = require("/c.js"); })();\<close>
\<close>

definition nestedExportsProgram :: node where
  "nestedExportsProgram =
     OtherNode ''File'' [OtherNode ''Program''
       [exportsRequire ''/a.js'', exportsRequire ''/b.js'',
        ExpressionStatement
          (CallExpression (FunctionExpression [] [exportsRequire ''/c.js'']) [])]]"

text \<open>The object literal \<^verbatim>\<open>{ x: x }\<close>.\<close>

definition objX :: node where
  "objX = ObjectExpression [ObjectProperty (Identifier ''x'') (Identifier ''x'')]"

text \<open>The program \<^verbatim>\<open>Package._define("a", exports); Package._define("b", { x: x });\<close>.\<close>

definition twoDefinesProgram :: node where
  "twoDefinesProgram =
     OtherNode ''File'' [OtherNode ''Program''
       [ExpressionStatement (defineCall [StringLiteral ''a'', Identifier ''exports'']),
        ExpressionStatement (defineCall [StringLiteral ''b'', objX])]]"

text \<open>DEF
  The program
  \<^verbatim>\<open>meteorInstall({ "node_modules": { "meteor": { "": {} } } }); Package._define("b", { x: x });\<close>
\<close>

definition unnamedInstallerProgram :: node where
  "unnamedInstallerProgram =
     OtherNode ''File'' [OtherNode ''Program''
       [ExpressionStatement (installer [] [] []),
        ExpressionStatement (defineCall [StringLiteral ''b'', objX])]]"

text \<open>DEF
  The program
  \<^verbatim>\<open>Package._define("early", { x: x });
  meteorInstall({ "node_modules": { "meteor": { "pkg:demo": { "index.js": function () {} } } } });
  Package._define("late", { x: x });\<close>
\<close>

definition definesAndInstallerProgram :: node where
  "definesAndInstallerProgram =
     OtherNode ''File'' [OtherNode ''Program''
       [ExpressionStatement (defineCall [StringLiteral ''early'', objX]),
        ExpressionStatement
          (installer ''pkg:demo''
             [ObjectProperty (StringLiteral ''index.js'') (FunctionExpression [] [])] []),
        ExpressionStatement (defineCall [StringLiteral ''late'', objX])]]"

text \<open>The program \<^verbatim>\<open>Package._define("first", { x: x }); Package._define("second", { x: x });\<close>.\<close>

definition definesOnlyProgram :: node where
  "definesOnlyProgram =
     OtherNode ''File'' [OtherNode ''Program''
       [ExpressionStatement (defineCall [StringLiteral ''first'', objX]),
        ExpressionStatement (defineCall [StringLiteral ''second'', objX])]]"

text \<open>DEF
  The body
  \<^verbatim>\<open>module.export({ Foo: () => Foo }); module.link("meteor/meteor", {...}, 3);
  var x = 1; module.exportDefault(x);\<close>
  with the bindings of \<open>linkExample\<close>.
\<close>

definition demoBody :: "node list" where
  "demoBody =
     [exportStatement [ObjectProperty (Identifier ''Foo'') (OtherNode ''ArrowFunctionExpression'' [Identifier ''Foo''])],
      linkStatement ''module'' ''meteor/meteor'' linkExample 3,
      OtherNode ''VariableDeclaration'' [VariableDeclarator (Identifier ''x'') (Some (NumericLiteral 1))],
      exportDefaultStatement ''x'']"

text \<open>The records of \<open>demoBody\<close>, in the order of its statements.\<close>

definition demoRecords :: "ModuleExport list" where
  "demoRecords =
     [\<lparr>ex_name = ''Foo'', ex_type = Export, ex_id = None, ex_from = None, ex_as = None\<rparr>,
      \<lparr>ex_name = ''Meteor'', ex_type = ReExport, ex_id = Some 3,
         ex_from = Some ''meteor/meteor'', ex_as = Some ''MyMeteor''\<rparr>,
      \<lparr>ex_name = ''Tracker'', ex_type = ReExport, ex_id = Some 3,
         ex_from = Some ''meteor/meteor'', ex_as = None\<rparr>,
      \<lparr>ex_name = ''Meteor'', ex_type = GlobalBinding, ex_id = Some 3,
         ex_from = Some ''meteor/meteor'', ex_as = None\<rparr>,
      \<lparr>ex_name = ''x'', ex_type = ExportDefault, ex_id = None, ex_from = None, ex_as = None\<rparr>]"

text \<open>DEF
  The package object
  \<^verbatim>\<open>{ "index.js": function () { demoBody }, "sub": { "a.js": function () {} } }\<close>.
\<close>

definition demoModules :: "node list" where
  "demoModules =
     [ObjectProperty (StringLiteral ''index.js'') (FunctionExpression [] demoBody),
      ObjectProperty (StringLiteral ''sub'')
        (ObjectExpression [ObjectProperty (StringLiteral ''a.js'') (FunctionExpression [] [])])]"

text \<open>DEF
  The package object
  \<^verbatim>\<open>{ "sub": { "a.js": function () { module.export({ first: () => first }); } },
    "sub/a.js": function () {} }\<close>,
  whose two leaves have the same joined path.
\<close>

definition collidingModules :: "node list" where
  "collidingModules =
     [ObjectProperty (StringLiteral ''sub'')
        (ObjectExpression
           [ObjectProperty (StringLiteral ''a.js'')
              (FunctionExpression []
                 [exportStatement [ObjectProperty (Identifier ''first'')
                    (OtherNode ''ArrowFunctionExpression'' [Identifier ''first''])]])]),
      ObjectProperty (StringLiteral ''sub/a.js'') (FunctionExpression [] [])]"

text \<open>DEF
  The program
  \<^verbatim>\<open>meteorInstall({ "node_modules": { "meteor": { "pkg:demo": {
    "index.js": function () { var x = 1; } } } } });\<close>,
  whose only module has no export statement.
\<close>

definition silentModules :: "node list" where
  "silentModules =
     [ObjectProperty (StringLiteral ''index.js'')
        (FunctionExpression []
           [OtherNode ''VariableDeclaration''
              [VariableDeclarator (Identifier ''x'') (Some (NumericLiteral 1))]])]"

definition silentProgram :: node where
  "silentProgram =
     OtherNode ''File'' [OtherNode ''Program''
       [ExpressionStatement (installer ''pkg:demo'' silentModules [])]]"

text \<open>The package object \<^verbatim>\<open>{ "__proto__": function () {} }\<close>.\<close>

definition protoModules :: "node list" where
  "protoModules = [ObjectProperty (StringLiteral ''__proto__'') (FunctionExpression [] [])]"

text \<open>
  The package objects
  \<^verbatim>\<open>{ "a.js": function () { module.exportDefault(x); }, "a.js": function () {} }\<close> and
  \<^verbatim>\<open>{ "__proto__": function () { module.exportDefault(x); } }\<close>.
\<close>

definition repeatedKeyModules :: "node list" where
  "repeatedKeyModules =
     [ObjectProperty (StringLiteral ''a.js'') (FunctionExpression [] [exportDefaultStatement ''x'']),
      ObjectProperty (StringLiteral ''a.js'') (FunctionExpression [] [])]"

definition protoExportModules :: "node list" where
  "protoExportModules =
     [ObjectProperty (StringLiteral ''__proto__'')
        (FunctionExpression [] [exportDefaultStatement ''x''])]"

text \<open>
  The package object
  \<^verbatim>\<open>{ "a.js": function () {}, "a.js": function () { module.exportDefault(x); } }\<close>, and the
  program
  \<^verbatim>\<open>meteorInstall({ "node_modules": { "meteor": { "pkg": { "__proto__": function () {} } } } });\<close>
\<close>

definition shadowedSilentModules :: "node list" where
  "shadowedSilentModules =
     [ObjectProperty (StringLiteral ''a.js'') (FunctionExpression [] []),
      ObjectProperty (StringLiteral ''a.js'') (FunctionExpression [] [exportDefaultStatement ''x''])]"

definition silentProtoProgram :: node where
  "silentProtoProgram =
     OtherNode ''File'' [OtherNode ''Program''
       [ExpressionStatement
          (installer ''pkg''
             [ObjectProperty (StringLiteral ''__proto__'') (FunctionExpression [] [])] [])]]"

section \<open>The recognizers on nodes that are not their calls\<close>

lemma parseMeteorInstall_not_call:
  "\<not> isInstallerCall nd \<Longrightarrow> parseMeteorInstall nd = Inr None"
  by (auto simp: isInstallerCall_def parseMeteorInstall_def split: node.splits)

lemma parsePackageScope_not_call:
  "\<not> isDefineCall nd \<Longrightarrow> parsePackageScope nd = Inr None"
  by (auto simp: isDefineCall_def parsePackageScope_def split: node.splits)

lemma parseMeteorInstall_call:
  "isInstallerCall nd \<Longrightarrow> parseMeteorInstall nd \<noteq> Inr None"
  by (auto simp: isInstallerCall_def parseMeteorInstall_def installerCall_def
      split: node.splits option.splits sum.splits)

lemma installer_not_define: "isInstallerCall nd \<Longrightarrow> \<not> isDefineCall nd"
  by (auto simp: isInstallerCall_def isDefineCall_def split: node.splits)

lemma enter_quiet:
  "parsePackageScope nd = Inr None \<Longrightarrow> parseMeteorInstall nd = Inr None \<Longrightarrow>
   enter r nd = Inr (r\<lparr>mainModulePath := stepMainModulePath (mainModulePath r) nd\<rparr>)"
  by (simp add: enter_def)

lemma traverse_quiet_fields:
  "\<forall>nd \<in> set ns. parsePackageScope nd = Inr None \<and> parseMeteorInstall nd = Inr None \<Longrightarrow>
   \<exists>r'. traverse ns r = Inr r' \<and> name r' = name r \<and> modules r' = modules r
        \<and> packageScopeExports r' = packageScopeExports r"
proof (induction ns arbitrary: r)
  case Nil
  then show ?case by simp
next
  case (Cons nd ns)
  have e: "enter r nd = Inr (r\<lparr>mainModulePath := stepMainModulePath (mainModulePath r) nd\<rparr>)"
    using Cons.prems by (simp add: enter_quiet)
  from Cons.IH [of "r\<lparr>mainModulePath := stepMainModulePath (mainModulePath r) nd\<rparr>"] Cons.prems
  show ?case by (simp add: e)
qed

lemma traverse_append:
  "traverse (xs @ ys) r =
     (case traverse xs r of Inl e \<Rightarrow> Inl e | Inr r' \<Rightarrow> traverse ys r')"
  by (induction xs arbitrary: r) (auto split: sum.splits)

section \<open>A text with neither call\<close>

text \<open>
  C2 (as amended). When the tree holds neither an installer call nor a package-scope
  call, no recognizer ever sets the name, and \<^verbatim>\<open>parseMeteorPackage\<close> checks the name before
  it checks for an empty result: the extraction fails with the missing-name error
  \<^verbatim>\<open>Could not extract name from package in: <filePath>\<close>, for every such tree.
\<close>

theorem no_calls_missing_name:
  assumes "\<forall>nd \<in> set (preorder source). \<not> isInstallerCall nd \<and> \<not> isDefineCall nd"
  shows "parseMeteorPackage filePath source =
           Inl (ParserError (''Could not extract name from package in: '' @ filePath))"
proof -
  have q: "\<forall>nd \<in> set (preorder source).
             parsePackageScope nd = Inr None \<and> parseMeteorInstall nd = Inr None"
    using assms by (simp add: parseMeteorInstall_not_call parsePackageScope_not_call)
  obtain r' where "traverse (preorder source) emptyResult = Inr r'" "name r' = name emptyResult"
    using traverse_quiet_fields [OF q, of emptyResult] by blast
  then show ?thesis
    by (simp add: parseMeteorPackage_def parseSource_def emptyResult_def)
qed

theorem no_calls_missing_name_witness:
  "parseMeteorPackage ''pkg.js'' emptyProgram =
     Inl (ParserError ''Could not extract name from package in: pkg.js'')"
  using no_calls_missing_name [of emptyProgram "''pkg.js''"]
  by (simp add: emptyProgram_def isInstallerCall_def isDefineCall_def)

text \<open>
  C2 as stated fails on the program \<^verbatim>\<open>foo();\<close>, which holds neither call: the error raised
  is the missing-name error, not the empty-result error (whose message would end with the
  still empty name).
\<close>

theorem no_calls_empty_result_counterexample:
  "parseMeteorPackage ''pkg.js'' fooProgram =
     Inl (ParserError ''Could not extract name from package in: pkg.js'')
   \<and> parseMeteorPackage ''pkg.js'' fooProgram \<noteq>
     Inl (ParserError
       (''No modules or package-scope exports could be extracted from package: '' @ []))"
  by (simp add: fooProgram_def parseMeteorPackage_def parseSource_def emptyResult_def
      enter_def parsePackageScope_def parseMeteorInstall_def readMainModulePath_def
      stepMainModulePath_def)

section \<open>Records of a \<^verbatim>\<open>module.link\<close> call\<close>

lemma mapE_Inr:
  "mapE f xs = Inr ys \<Longrightarrow> length ys = length xs \<and> (\<forall>j < length xs. f (xs ! j) = Inr (ys ! j))"
proof (induction xs arbitrary: ys)
  case Nil
  then show ?case by simp
next
  case (Cons x xs)
  from Cons.prems obtain y ys' where
    fx: "f x = Inr y" and rest: "mapE f xs = Inr ys'" and ys: "ys = y # ys'"
    by (auto split: sum.splits)
  from Cons.IH [OF rest] fx ys show ?case
    by (auto simp: nth_Cons split: nat.splits)
qed


lemma some_result_Inr [simp]: "some_result r = Inr (Some x) \<longleftrightarrow> r = Inr x"
  by (auto simp: some_result_def split: sum.splits)

lemma readModuleExports_link:
  "is_module_name m \<Longrightarrow>
   readModuleExports (linkStatement m frm bindings i) =
     some_result (formatExports bindings (Some frm) (Some i))"
  by (simp add: linkStatement_def moduleCall_def moduleLink_def nth_opt_def)

lemma formatExport_string:
  "key = Identifier k \<or> key = StringLiteral k \<Longrightarrow>
   formatExport (Some frm) idv (ObjectProperty key (StringLiteral v)) =
     Inr \<lparr>ex_name = k, ex_type = ReExport, ex_id = idv, ex_from = Some frm,
          ex_as = (if v = k then None else Some v)\<rparr>"
  by (auto simp: formatExport_def)

lemma formatExport_method:
  "key = Identifier k \<or> key = StringLiteral k \<Longrightarrow>
   formatExport (Some frm) idv (ObjectMethod key ps b) =
     Inr \<lparr>ex_name = k, ex_type = GlobalBinding, ex_id = idv, ex_from = Some frm,
          ex_as = None\<rparr>"
  by (auto simp: formatExport_def)

lemma formatExport_method_type:
  "formatExport (Some frm) idv (ObjectMethod key ps b) = Inr r \<Longrightarrow> ex_type r = GlobalBinding"
  by (cases key) (auto simp: formatExport_def)

lemma linkExample_records:
  "readModuleExports (linkStatement ''module1'' ''meteor/meteor'' linkExample 3) =
     Inr (Some
       [\<lparr>ex_name = ''Meteor'', ex_type = ReExport, ex_id = Some 3,
          ex_from = Some ''meteor/meteor'', ex_as = Some ''MyMeteor''\<rparr>,
        \<lparr>ex_name = ''Tracker'', ex_type = ReExport, ex_id = Some 3,
          ex_from = Some ''meteor/meteor'', ex_as = None\<rparr>,
        \<lparr>ex_name = ''Meteor'', ex_type = GlobalBinding, ex_id = Some 3,
          ex_from = Some ''meteor/meteor'', ex_as = None\<rparr>])"
  by (simp add: linkStatement_def linkExample_def moduleCall_def moduleLink_def nth_opt_def
      is_module_name_def is_digit_def formatExports_def formatExport_def some_result_def)

text \<open>
  C3. A binding of a \<^verbatim>\<open>module.link\<close> call whose value is a string literal \<open>v\<close> and whose
  key is the name \<open>k\<close> (an identifier or a string literal) gives a re-export record named
  \<open>k\<close>: without \<^verbatim>\<open>as\<close> when \<open>v = k\<close>, with \<^verbatim>\<open>as\<close> equal to \<open>v\<close> otherwise. So does the
  record at the binding's position in the list that \<^verbatim>\<open>readModuleExports\<close> returns for the
  call.
\<close>

theorem link_string_binding:
  assumes key: "key = Identifier k \<or> key = StringLiteral k"
  shows "formatExport (Some frm) (Some i) (ObjectProperty key (StringLiteral v)) =
           Inr \<lparr>ex_name = k, ex_type = ReExport, ex_id = Some i, ex_from = Some frm,
                ex_as = (if v = k then None else Some v)\<rparr>
       \<and> (is_module_name m
           \<and> readModuleExports (linkStatement m frm bindings i) = Inr (Some records)
           \<and> j < length bindings \<and> bindings ! j = ObjectProperty key (StringLiteral v)
          \<longrightarrow> records ! j =
                \<lparr>ex_name = k, ex_type = ReExport, ex_id = Some i, ex_from = Some frm,
                 ex_as = (if v = k then None else Some v)\<rparr>)"
proof (intro conjI impI)
  show "formatExport (Some frm) (Some i) (ObjectProperty key (StringLiteral v)) =
           Inr \<lparr>ex_name = k, ex_type = ReExport, ex_id = Some i, ex_from = Some frm,
                ex_as = (if v = k then None else Some v)\<rparr>"
    using key by (rule formatExport_string)
next
  assume a: "is_module_name m
           \<and> readModuleExports (linkStatement m frm bindings i) = Inr (Some records)
           \<and> j < length bindings \<and> bindings ! j = ObjectProperty key (StringLiteral v)"
  then have m: "is_module_name m"
    and r: "readModuleExports (linkStatement m frm bindings i) = Inr (Some records)"
    by simp_all
  have "mapE (formatExport (Some frm) (Some i)) bindings = Inr records"
    using r unfolding readModuleExports_link [OF m] formatExports_def by simp
  from mapE_Inr [OF this] a
  have "formatExport (Some frm) (Some i) (ObjectProperty key (StringLiteral v)) = Inr (records ! j)"
    by auto
  then show "records ! j =
                \<lparr>ex_name = k, ex_type = ReExport, ex_id = Some i, ex_from = Some frm,
                 ex_as = (if v = k then None else Some v)\<rparr>"
    using formatExport_string [OF key, of frm "Some i" v] by simp
qed

theorem link_string_binding_witness:
  "formatExport (Some ''meteor/meteor'') (Some 3)
     (ObjectProperty (Identifier ''Meteor'') (StringLiteral ''MyMeteor'')) =
     Inr \<lparr>ex_name = ''Meteor'', ex_type = ReExport, ex_id = Some 3,
          ex_from = Some ''meteor/meteor'', ex_as = Some ''MyMeteor''\<rparr>
   \<and> formatExport (Some ''meteor/meteor'') (Some 3)
     (ObjectProperty (StringLiteral ''Tracker'') (StringLiteral ''Tracker'')) =
     Inr \<lparr>ex_name = ''Tracker'', ex_type = ReExport, ex_id = Some 3,
          ex_from = Some ''meteor/meteor'', ex_as = None\<rparr>"
  using link_string_binding [where key = "Identifier ''Meteor''" and k = "''Meteor''"
      and frm = "''meteor/meteor''" and i = 3 and v = "''MyMeteor''" and m = "''module1''"
      and bindings = linkExample and j = 0]
    link_string_binding [where key = "StringLiteral ''Tracker''" and k = "''Tracker''"
      and frm = "''meteor/meteor''" and i = 3 and v = "''Tracker''" and m = "''module1''"
      and bindings = linkExample and j = 1]
  by simp

text \<open>
  C4. A binding of a \<^verbatim>\<open>module.link\<close> call that is an object method gives a record of type
  global-binding, never re-export, whatever its key: the only other outcome is the error for
  a key that is neither an identifier nor a string literal.
\<close>

theorem link_method_binding:
  "(formatExport (Some frm) idv (ObjectMethod key ps b) = Inr r \<longrightarrow>
      ex_type r = GlobalBinding \<and> ex_type r \<noteq> ReExport)
   \<and> (key = Identifier k \<or> key = StringLiteral k \<longrightarrow>
      formatExport (Some frm) idv (ObjectMethod key ps b) =
        Inr \<lparr>ex_name = k, ex_type = GlobalBinding, ex_id = idv, ex_from = Some frm,
             ex_as = None\<rparr>)
   \<and> (is_module_name m
       \<and> readModuleExports (linkStatement m frm bindings i) = Inr (Some records)
       \<and> j < length bindings \<and> bindings ! j = ObjectMethod key ps b
      \<longrightarrow> ex_type (records ! j) = GlobalBinding)"
proof (intro conjI impI)
  assume "formatExport (Some frm) idv (ObjectMethod key ps b) = Inr r"
  then show "ex_type r = GlobalBinding"
    by (rule formatExport_method_type)
  then show "ex_type r \<noteq> ReExport" by simp
next
  assume "key = Identifier k \<or> key = StringLiteral k"
  then show "formatExport (Some frm) idv (ObjectMethod key ps b) =
        Inr \<lparr>ex_name = k, ex_type = GlobalBinding, ex_id = idv, ex_from = Some frm,
             ex_as = None\<rparr>"
    by (rule formatExport_method)
next
  assume a: "is_module_name m
       \<and> readModuleExports (linkStatement m frm bindings i) = Inr (Some records)
       \<and> j < length bindings \<and> bindings ! j = ObjectMethod key ps b"
  then have m: "is_module_name m"
    and r: "readModuleExports (linkStatement m frm bindings i) = Inr (Some records)"
    by simp_all
  have "mapE (formatExport (Some frm) (Some i)) bindings = Inr records"
    using r unfolding readModuleExports_link [OF m] formatExports_def by simp
  from mapE_Inr [OF this] a
  have "formatExport (Some frm) (Some i) (ObjectMethod key ps b) = Inr (records ! j)"
    by auto
  then show "ex_type (records ! j) = GlobalBinding"
    by (rule formatExport_method_type)
qed

theorem link_method_binding_witness:
  "ex_type
     ([\<lparr>ex_name = ''Meteor'', ex_type = ReExport, ex_id = Some 3,
          ex_from = Some ''meteor/meteor'', ex_as = Some ''MyMeteor''\<rparr>,
        \<lparr>ex_name = ''Tracker'', ex_type = ReExport, ex_id = Some 3,
          ex_from = Some ''meteor/meteor'', ex_as = None\<rparr>,
        \<lparr>ex_name = ''Meteor'', ex_type = GlobalBinding, ex_id = Some 3,
          ex_from = Some ''meteor/meteor'', ex_as = None\<rparr>] ! 2) = GlobalBinding
   \<and> formatExport (Some ''meteor/meteor'') (Some 3)
        (ObjectMethod (Identifier ''Meteor'') [Identifier ''v''] []) =
      Inr \<lparr>ex_name = ''Meteor'', ex_type = GlobalBinding, ex_id = Some 3,
           ex_from = Some ''meteor/meteor'', ex_as = None\<rparr>"
  using link_method_binding [where key = "Identifier ''Meteor''" and k = "''Meteor''"
      and frm = "''meteor/meteor''" and idv = "Some 3" and i = 3 and m = "''module1''"
      and bindings = linkExample and j = 2 and ps = "[Identifier ''v'']" and b = "[]"
      and records = "[\<lparr>ex_name = ''Meteor'', ex_type = ReExport, ex_id = Some 3,
          ex_from = Some ''meteor/meteor'', ex_as = Some ''MyMeteor''\<rparr>,
        \<lparr>ex_name = ''Tracker'', ex_type = ReExport, ex_id = Some 3,
          ex_from = Some ''meteor/meteor'', ex_as = None\<rparr>,
        \<lparr>ex_name = ''Meteor'', ex_type = GlobalBinding, ex_id = Some 3,
          ex_from = Some ''meteor/meteor'', ex_as = None\<rparr>]"]
    linkExample_records
  by (simp add: linkExample_def is_module_name_def is_digit_def)

section \<open>The package-scope call\<close>






lemma parsePackageScope_defineCall:
  "parsePackageScope (defineCall args) = packageScopeArgs args"
  by (simp add: parsePackageScope_def defineCall_def)





section \<open>Errors end the traversal\<close>

lemma traverse_fails:
  assumes "nd \<in> set ns" and "\<And>r. \<exists>e. enter r nd = Inl e"
  shows "\<exists>e. traverse ns r = Inl e"
  using assms(1)
proof (induction ns arbitrary: r)
  case Nil
  then show ?case by simp
next
  case (Cons x ns)
  show ?case
  proof (cases "enter r x")
    case (Inl e)
    then show ?thesis by simp
  next
    case (Inr r')
    show ?thesis
    proof (cases "x = nd")
      case True
      with assms(2) [of r] Inr show ?thesis by simp
    next
      case False
      with Cons.prems have "nd \<in> set ns" by simp
      from Cons.IH [OF this, of r'] Inr show ?thesis by simp
    qed
  qed
qed

lemma traverse_quiet_prefix:
  assumes "\<forall>nd \<in> set before. \<not> isInstallerCall nd \<and> \<not> isDefineCall nd"
    and "\<And>r. enter r nd = Inl e"
  shows "traverse (before @ nd # after) r = Inl e"
proof -
  have "\<forall>nd \<in> set before. parsePackageScope nd = Inr None \<and> parseMeteorInstall nd = Inr None"
    using assms(1) by (simp add: parseMeteorInstall_not_call parsePackageScope_not_call)
  from traverse_quiet_fields [OF this, of r]
  obtain r' where "traverse before r = Inr r'" by blast
  then show ?thesis by (simp add: traverse_append assms(2))
qed

lemma parseMeteorPackage_fails:
  "parseSource source = Inl e \<Longrightarrow> \<exists>e'. parseMeteorPackage filePath source = Inl e'"
  by (cases e) (simp_all add: parseMeteorPackage_def)

section \<open>A package-scope call with a bad exports argument\<close>

lemma packageScopeArgs_third:
  assumes "2 < length args" and "\<not> isObjectLiteral (args ! 2)"
  shows "packageScopeArgs args =
           Inl (ModuleExportsError
             ''Unexpected type received for package-scope exports argument!'' (Some (args ! 2)))"
  using assms by (cases "args ! 2") (simp_all add: packageScopeArgs_def nth_opt_def isObjectLiteral_def)

text \<open>
  C6. A call \<^verbatim>\<open>Package._define(args)\<close> whose third argument exists and is not an object
  literal: \<^verbatim>\<open>parsePackageScope\<close> throws the \<^verbatim>\<open>ModuleExportsError\<close> that carries the third
  argument, and so does the \<^verbatim>\<open>enter\<close> handler on any accumulated result. A tree that holds
  such a call anywhere has no result: \<^verbatim>\<open>parseSource\<close> and \<^verbatim>\<open>parseMeteorPackage\<close> end in an
  error. When no installer or package-scope call comes before it in the traversal, the error
  of \<^verbatim>\<open>parseSource\<close> is this very one, which \<^verbatim>\<open>parseMeteorPackage\<close> logs and replaces by its
  \<^verbatim>\<open>ParserError\<close>.
\<close>

theorem define_third_argument_not_object:
  assumes "2 < length args" and "\<not> isObjectLiteral (args ! 2)"
  shows "parsePackageScope (defineCall args) =
           Inl (ModuleExportsError
             ''Unexpected type received for package-scope exports argument!'' (Some (args ! 2)))
       \<and> enter r (defineCall args) =
           Inl (ModuleExportsError
             ''Unexpected type received for package-scope exports argument!'' (Some (args ! 2)))
       \<and> (defineCall args \<in> set (preorder source) \<longrightarrow>
            (\<exists>e. parseSource source = Inl e) \<and> (\<exists>e. parseMeteorPackage filePath source = Inl e))
       \<and> (preorder source = before @ defineCall args # after
            \<and> (\<forall>nd \<in> set before. \<not> isInstallerCall nd \<and> \<not> isDefineCall nd) \<longrightarrow>
            parseSource source =
              Inl (ModuleExportsError
                ''Unexpected type received for package-scope exports argument!''
                (Some (args ! 2)))
            \<and> parseMeteorPackage filePath source =
              Inl (ParserError ''Failed to parse source code. See previous error.''))"
proof -
  let ?err = "ModuleExportsError
             ''Unexpected type received for package-scope exports argument!'' (Some (args ! 2))"
  have p: "parsePackageScope (defineCall args) = Inl ?err"
    by (simp add: parsePackageScope_defineCall packageScopeArgs_third [OF assms])
  have e: "enter r (defineCall args) = Inl ?err" for r
    by (simp add: enter_def p)
  have a: "(\<exists>e. parseSource source = Inl e) \<and> (\<exists>e. parseMeteorPackage filePath source = Inl e)"
    if "defineCall args \<in> set (preorder source)"
  proof -
    have "\<exists>e. traverse (preorder source) emptyResult = Inl e"
      using that e by (intro traverse_fails [where nd = "defineCall args"]) auto
    then obtain e' where "parseSource source = Inl e'" by (auto simp: parseSource_def)
    then show ?thesis using parseMeteorPackage_fails by blast
  qed
  have b: "parseSource source = Inl ?err
      \<and> parseMeteorPackage filePath source =
          Inl (ParserError ''Failed to parse source code. See previous error.'')"
    if "preorder source = before @ defineCall args # after
        \<and> (\<forall>nd \<in> set before. \<not> isInstallerCall nd \<and> \<not> isDefineCall nd)"
  proof -
    have "traverse (before @ defineCall args # after) emptyResult = Inl ?err"
      using that e by (intro traverse_quiet_prefix) auto
    then have "parseSource source = Inl ?err" using that by (simp add: parseSource_def)
    then show ?thesis by (simp add: parseMeteorPackage_def)
  qed
  show ?thesis using p e a b by blast
qed

lemma preorder_badDefineProgram:
  "preorder badDefineProgram =
     [badDefineProgram,
      OtherNode ''Program'' [ExpressionStatement (defineCall badDefineArgs)],
      ExpressionStatement (defineCall badDefineArgs)]
     @ defineCall badDefineArgs
     # [MemberExpression (Identifier ''Package'') (Identifier ''_define''),
        Identifier ''Package'', Identifier ''_define'',
        StringLiteral ''pkg'', Identifier ''exports'', Identifier ''scopeExports'']"
  by (simp add: badDefineProgram_def defineCall_def badDefineArgs_def)

theorem define_third_argument_not_object_witness:
  "parsePackageScope (defineCall badDefineArgs) =
     Inl (ModuleExportsError
       ''Unexpected type received for package-scope exports argument!''
       (Some (Identifier ''scopeExports'')))
   \<and> parseSource badDefineProgram =
     Inl (ModuleExportsError
       ''Unexpected type received for package-scope exports argument!''
       (Some (Identifier ''scopeExports'')))
   \<and> parseMeteorPackage ''pkg.js'' badDefineProgram =
     Inl (ParserError ''Failed to parse source code. See previous error.'')"
  using define_third_argument_not_object [where args = badDefineArgs
      and source = badDefineProgram and filePath = "''pkg.js''"
      and before = "[badDefineProgram,
        OtherNode ''Program'' [ExpressionStatement (defineCall badDefineArgs)],
        ExpressionStatement (defineCall badDefineArgs)]"
      and after = "[MemberExpression (Identifier ''Package'') (Identifier ''_define''),
        Identifier ''Package'', Identifier ''_define'',
        StringLiteral ''pkg'', Identifier ''exports'', Identifier ''scopeExports'']"]
    preorder_badDefineProgram
  by (simp add: badDefineArgs_def isObjectLiteral_def isInstallerCall_def isDefineCall_def
      badDefineProgram_def)

section \<open>The main module path\<close>

lemma enter_mainModulePath:
  "enter r nd = Inr r' \<Longrightarrow> mainModulePath r' = stepMainModulePath (mainModulePath r) nd"
  by (auto simp: enter_def Let_def split: sum.splits option.splits)

lemma traverse_mainModulePath:
  "traverse ns r = Inr r' \<Longrightarrow> mainModulePath r' = foldl stepMainModulePath (mainModulePath r) ns"
proof (induction ns arbitrary: r)
  case Nil
  then show ?case by simp
next
  case (Cons nd ns)
  from Cons.prems obtain r1 where e: "enter r nd = Inr r1" and t: "traverse ns r1 = Inr r'"
    by (auto split: sum.splits)
  from Cons.IH [OF t] enter_mainModulePath [OF e] show ?case by simp
qed

lemma foldl_stepMainModulePath:
  "foldl stepMainModulePath cur ns =
     (if mainModuleLiterals ns = [] then cur else last (mainModuleLiterals ns))"
  by (induction ns arbitrary: cur)
    (auto simp: mainModuleLiterals_def stepMainModulePath_def List.map_filter_simps
      split: option.splits)

lemma enter_no_error:
  "\<not> isl (parsePackageScope nd) \<Longrightarrow> \<not> isl (parseMeteorInstall nd) \<Longrightarrow> \<exists>r'. enter r nd = Inr r'"
  by (auto simp: enter_def Let_def isl_def split: sum.splits)

lemma traverse_no_error:
  "\<forall>nd \<in> set ns. \<not> isl (parsePackageScope nd) \<and> \<not> isl (parseMeteorInstall nd) \<Longrightarrow>
   \<exists>r'. traverse ns r = Inr r'"
proof (induction ns arbitrary: r)
  case Nil
  then show ?case by simp
next
  case (Cons nd ns)
  from Cons.prems enter_no_error [of nd r] obtain r1 where e: "enter r nd = Inr r1" by auto
  from Cons.IH [of r1] Cons.prems e show ?case by simp
qed

text \<open>
  C8 (as amended). Whenever the traversal returns, the main module path is the string of the
  last declarator \<^verbatim>\<open>exports = require("...")\<close> in pre-order, at any depth of the tree, whose
  string is not empty, and the empty string when there is none. The declarations themselves
  raise nothing: the traversal returns unless the installer or the package-scope recognizer
  throws on some node.
\<close>

theorem main_module_path_last_nonempty:
  "(parseSource source = Inr r \<longrightarrow>
      mainModulePath r =
        (if mainModuleLiterals (preorder source) = [] then []
         else last (mainModuleLiterals (preorder source))))
   \<and> ((\<forall>nd \<in> set (preorder source).
          \<not> isl (parsePackageScope nd) \<and> \<not> isl (parseMeteorInstall nd)) \<longrightarrow>
      (\<exists>r'. parseSource source = Inr r'))"
proof (intro conjI impI)
  assume "parseSource source = Inr r"
  then have "mainModulePath r = foldl stepMainModulePath [] (preorder source)"
    using traverse_mainModulePath [of "preorder source" emptyResult r]
    by (simp add: parseSource_def emptyResult_def)
  then show "mainModulePath r =
        (if mainModuleLiterals (preorder source) = [] then []
         else last (mainModuleLiterals (preorder source)))"
    by (simp add: foldl_stepMainModulePath)
next
  assume "\<forall>nd \<in> set (preorder source).
          \<not> isl (parsePackageScope nd) \<and> \<not> isl (parseMeteorInstall nd)"
  then show "\<exists>r'. parseSource source = Inr r'"
    unfolding parseSource_def by (rule traverse_no_error)
qed

lemma parseSource_twoExportsProgram:
  "parseSource twoExportsProgram =
     Inr \<lparr>name = [], modules = Map.empty, packageScopeExports = Map.empty, mainModulePath = ''/b.js''\<rparr>"
  by (simp add: twoExportsProgram_def exportsRequire_def parseSource_def emptyResult_def
      enter_def parsePackageScope_def parseMeteorInstall_def readMainModulePath_def
      stepMainModulePath_def nth_opt_def)

theorem main_module_path_last_nonempty_witness:
  "mainModuleLiterals (preorder twoExportsProgram) = [''/a.js'', ''/b.js'']
   \<and> mainModulePath
       \<lparr>name = [], modules = Map.empty, packageScopeExports = Map.empty, mainModulePath = ''/b.js''\<rparr> =
     ''/b.js''
   \<and> (\<exists>r'. parseSource twoExportsProgram = Inr r')"
  using main_module_path_last_nonempty [where source = twoExportsProgram
      and r = "\<lparr>name = [], modules = Map.empty, packageScopeExports = Map.empty, mainModulePath = ''/b.js''\<rparr>"]
    parseSource_twoExportsProgram
  by (simp add: mainModuleLiterals_def twoExportsProgram_def exportsRequire_def
      readMainModulePath_def nth_opt_def List.map_filter_simps)

text \<open>
  C8 as stated fails in two ways. In the first program the last top-level declaration has
  the empty string, which \<^verbatim>\<open>||\<close> skips: the path stays \<^verbatim>\<open>/a.js\<close>. In the second the last
  top-level declaration has \<^verbatim>\<open>/b.js\<close>, and a declaration nested in a function, later in the
  traversal, sets \<^verbatim>\<open>/c.js\<close>.
\<close>

theorem main_module_path_top_level_counterexample:
  "List.map_filter readMainModulePath (topLevelDeclarators emptyExportsProgram) = [''/a.js'', []]
   \<and> parseSource emptyExportsProgram =
       Inr \<lparr>name = [], modules = Map.empty, packageScopeExports = Map.empty, mainModulePath = ''/a.js''\<rparr>
   \<and> List.map_filter readMainModulePath (topLevelDeclarators nestedExportsProgram) =
       [''/a.js'', ''/b.js'']
   \<and> parseSource nestedExportsProgram =
       Inr \<lparr>name = [], modules = Map.empty, packageScopeExports = Map.empty, mainModulePath = ''/c.js''\<rparr>"
  by (simp add: emptyExportsProgram_def nestedExportsProgram_def exportsRequire_def
      topLevelDeclarators_def parseSource_def emptyResult_def
      enter_def parsePackageScope_def parseMeteorInstall_def readMainModulePath_def
      stepMainModulePath_def nth_opt_def List.map_filter_simps)

section \<open>The package name\<close>

lemma parseMeteorInstall_installer:
  "parseMeteorInstall (installer nm packageModules extra) =
     (case traverseModules packageModules [] Map.empty of
        Inl e \<Rightarrow> Inl e
      | Inr mods \<Rightarrow> Inr (Some (nm, mods)))"
  by (simp add: parseMeteorInstall_def installer_def installerCall_def nth_opt_def
      split: sum.splits)

lemma parsePackageScope_installer:
  "parsePackageScope (installer nm packageModules extra) = Inr None"
  by (simp add: parsePackageScope_def installer_def)

lemma stepMainModulePath_installer:
  "stepMainModulePath cur (installer nm packageModules extra) = cur"
  by (simp add: stepMainModulePath_def readMainModulePath_def installer_def)

lemma enter_installer:
  assumes "enter r (installer nm packageModules extra) = Inr r'"
  shows "\<exists>mods. traverseModules packageModules [] Map.empty = Inr mods
           \<and> r' = r\<lparr>name := nm, modules := mods\<rparr>"
  using assms
  by (auto simp: enter_def parseMeteorInstall_installer parsePackageScope_installer
      stepMainModulePath_installer split: sum.splits)

lemma enter_name_keep:
  assumes "\<not> isInstallerCall nd" and "name r \<noteq> []" and "enter r nd = Inr r'"
  shows "name r' = name r"
  using assms
  by (auto simp: enter_def parseMeteorInstall_not_call Let_def split: sum.splits option.splits)

lemma traverse_name_keep:
  "\<forall>nd \<in> set ns. \<not> isInstallerCall nd \<Longrightarrow> name r \<noteq> [] \<Longrightarrow> traverse ns r = Inr r' \<Longrightarrow>
   name r' = name r"
proof (induction ns arbitrary: r)
  case Nil
  then show ?case by simp
next
  case (Cons nd ns)
  from Cons.prems obtain r1 where e: "enter r nd = Inr r1" and t: "traverse ns r1 = Inr r'"
    by (auto split: sum.splits)
  have n: "name r1 = name r" using Cons.prems e by (auto intro: enter_name_keep)
  from Cons.IH [of r1] Cons.prems t n show ?case by simp
qed

lemma traverse_name_empty:
  "\<forall>nd \<in> set ns. \<not> isInstallerCall nd \<and> parsePackageScope nd = Inr None \<Longrightarrow>
   traverse ns r = Inr r' \<Longrightarrow> name r' = name r"
  using traverse_quiet_fields [of ns r] by (auto simp: parseMeteorInstall_not_call)

lemma enter_name_define:
  assumes "\<not> isInstallerCall nd" and "parsePackageScope nd = Inr (Some (pn, exports))"
    and "name r = []" and "enter r nd = Inr r'"
  shows "name r' = pn"
  using assms by (auto simp: enter_def parseMeteorInstall_not_call)

text \<open>
  C9 (as amended). First part: the tree holds an installer call whose package-name key is
  the non-empty string literal \<open>nm\<close>, and no installer call comes after it in the traversal;
  then the final name is \<open>nm\<close>, whatever package-scope calls come before or after. Second
  part: the tree holds no installer call; then the final name is the non-empty name \<open>pn\<close> of
  the first package-scope call for which \<^verbatim>\<open>parsePackageScope\<close> returns a result, that is, the
  first one that has an exports object literal.
\<close>

theorem final_package_name:
  "(preorder source = before @ installer nm packageModules extra # after
      \<and> nm \<noteq> [] \<and> (\<forall>nd \<in> set after. \<not> isInstallerCall nd)
      \<and> parseSource source = Inr r \<longrightarrow> name r = nm)
   \<and> (preorder source' = before' @ call # after'
      \<and> (\<forall>nd \<in> set (preorder source'). \<not> isInstallerCall nd)
      \<and> (\<forall>nd \<in> set before'. parsePackageScope nd = Inr None)
      \<and> parsePackageScope call = Inr (Some (pn, exports)) \<and> pn \<noteq> []
      \<and> parseSource source' = Inr r' \<longrightarrow> name r' = pn)"
proof (intro conjI impI)
  assume a: "preorder source = before @ installer nm packageModules extra # after
      \<and> nm \<noteq> [] \<and> (\<forall>nd \<in> set after. \<not> isInstallerCall nd)
      \<and> parseSource source = Inr r"
  then have p: "preorder source = before @ installer nm packageModules extra # after"
    and s: "parseSource source = Inr r"
    by simp_all
  have "traverse (before @ installer nm packageModules extra # after) emptyResult = Inr r"
    using s unfolding parseSource_def p .
  then obtain r1 r2 where "traverse before emptyResult = Inr r1"
    and e: "enter r1 (installer nm packageModules extra) = Inr r2"
    and t: "traverse after r2 = Inr r"
    by (auto simp: traverse_append split: sum.splits)
  from enter_installer [OF e] have "name r2 = nm" by auto
  with a t show "name r = nm"
    using traverse_name_keep [of after r2 r] by simp
next
  assume a: "preorder source' = before' @ call # after'
      \<and> (\<forall>nd \<in> set (preorder source'). \<not> isInstallerCall nd)
      \<and> (\<forall>nd \<in> set before'. parsePackageScope nd = Inr None)
      \<and> parsePackageScope call = Inr (Some (pn, exports)) \<and> pn \<noteq> []
      \<and> parseSource source' = Inr r'"
  then have p: "preorder source' = before' @ call # after'"
    and s: "parseSource source' = Inr r'"
    by simp_all
  have "traverse (before' @ call # after') emptyResult = Inr r'"
    using s unfolding parseSource_def p .
  then obtain r1 r2 where b: "traverse before' emptyResult = Inr r1"
    and e: "enter r1 call = Inr r2"
    and t: "traverse after' r2 = Inr r'"
    by (auto simp: traverse_append split: sum.splits)
  have ni: "\<forall>nd \<in> set before'. \<not> isInstallerCall nd" "\<not> isInstallerCall call"
    "\<forall>nd \<in> set after'. \<not> isInstallerCall nd"
    using a by auto
  have "name r1 = []"
    using traverse_name_empty [of before' emptyResult r1] b a ni(1)
    by (simp add: emptyResult_def)
  then have "name r2 = pn"
    using enter_name_define [OF ni(2) _ _ e] a by simp
  with a t ni(3) show "name r' = pn"
    using traverse_name_keep [of after' r2 r'] by simp
qed

lemmas traversal_defs =
  parseSource_def emptyResult_def enter_def parsePackageScope_def packageScopeArgs_def
  packageExportKey_def parseMeteorInstall_def installerCall_def readMainModulePath_def
  stepMainModulePath_def nth_opt_def assignProperty_def

lemma parseSource_definesAndInstallerProgram:
  "parseSource definesAndInstallerProgram =
     Inr \<lparr>name = ''pkg:demo'', modules = [''index.js'' \<mapsto> []],
          packageScopeExports = [''early'' \<mapsto> [''x''], ''late'' \<mapsto> [''x'']],
          mainModulePath = []\<rparr>"
  by (simp add: definesAndInstallerProgram_def installer_def defineCall_def objX_def
      traversal_defs)

lemma parseSource_definesOnlyProgram:
  "parseSource definesOnlyProgram =
     Inr \<lparr>name = ''first'', modules = Map.empty,
          packageScopeExports = [''first'' \<mapsto> [''x''], ''second'' \<mapsto> [''x'']],
          mainModulePath = []\<rparr>"
  by (simp add: definesOnlyProgram_def defineCall_def objX_def traversal_defs)

theorem final_package_name_witness:
  "name \<lparr>name = ''pkg:demo'', modules = [''index.js'' \<mapsto> []],
          packageScopeExports = [''early'' \<mapsto> [''x''], ''late'' \<mapsto> [''x'']],
          mainModulePath = []\<rparr> = ''pkg:demo''
   \<and> name \<lparr>name = ''first'', modules = Map.empty,
          packageScopeExports = [''first'' \<mapsto> [''x''], ''second'' \<mapsto> [''x'']],
          mainModulePath = []\<rparr> = ''first''
   \<and> preorder definesAndInstallerProgram ! 13 =
       installer ''pkg:demo''
         [ObjectProperty (StringLiteral ''index.js'') (FunctionExpression [] [])] []
   \<and> preorder definesOnlyProgram ! 3 = defineCall [StringLiteral ''first'', objX]"
  using final_package_name [where source = definesAndInstallerProgram
      and before = "take 13 (preorder definesAndInstallerProgram)"
      and after = "drop 14 (preorder definesAndInstallerProgram)"
      and nm = "''pkg:demo''"
      and packageModules = "[ObjectProperty (StringLiteral ''index.js'') (FunctionExpression [] [])]"
      and extra = "[]"
      and r = "\<lparr>name = ''pkg:demo'', modules = [''index.js'' \<mapsto> []],
          packageScopeExports = [''early'' \<mapsto> [''x''], ''late'' \<mapsto> [''x'']],
          mainModulePath = []\<rparr>"
      and source' = definesOnlyProgram
      and before' = "take 3 (preorder definesOnlyProgram)"
      and after' = "drop 4 (preorder definesOnlyProgram)"
      and call = "defineCall [StringLiteral ''first'', objX]"
      and pn = "''first''" and exports = "[''x'']"
      and r' = "\<lparr>name = ''first'', modules = Map.empty,
          packageScopeExports = [''first'' \<mapsto> [''x''], ''second'' \<mapsto> [''x'']],
          mainModulePath = []\<rparr>"]
    parseSource_definesAndInstallerProgram parseSource_definesOnlyProgram
  by (simp add: definesAndInstallerProgram_def definesOnlyProgram_def installer_def
      defineCall_def objX_def isInstallerCall_def parsePackageScope_def packageScopeArgs_def
      packageExportKey_def nth_opt_def)

text \<open>
  C9 as stated fails in two ways. In the first program the first package-scope call has no
  exports object (its second argument is an identifier), so the recognizer returns nothing
  for it and the name is that of the second call, \<open>b\<close>, not \<open>a\<close>. In the second program
  the installer's package-name key is the empty string, which the later package-scope call
  replaces by \<open>b\<close>.
\<close>

theorem final_package_name_counterexample:
  "filter isDefineCall (preorder twoDefinesProgram) =
     [defineCall [StringLiteral ''a'', Identifier ''exports''],
      defineCall [StringLiteral ''b'', objX]]
   \<and> filter isInstallerCall (preorder twoDefinesProgram) = []
   \<and> parseSource twoDefinesProgram =
       Inr \<lparr>name = ''b'', modules = Map.empty, packageScopeExports = [''b'' \<mapsto> [''x'']],
            mainModulePath = []\<rparr>
   \<and> filter isInstallerCall (preorder unnamedInstallerProgram) = [installer [] [] []]
   \<and> parseSource unnamedInstallerProgram =
       Inr \<lparr>name = ''b'', modules = Map.empty, packageScopeExports = [''b'' \<mapsto> [''x'']],
            mainModulePath = []\<rparr>"
  by (simp add: twoDefinesProgram_def unnamedInstallerProgram_def installer_def defineCall_def
      objX_def isDefineCall_def isInstallerCall_def traversal_defs)

section \<open>The module tree\<close>

lemma readBody_records:
  "readBody stmts acc = Inr out \<Longrightarrow> out = acc @ concat (map statementRecords stmts)"
proof (induction stmts arbitrary: acc)
  case Nil
  then show ?case by simp
next
  case (Cons s stmts)
  show ?case
  proof (cases "readModuleExports s")
    case (Inl e)
    with Cons.prems show ?thesis by simp
  next
    case (Inr x)
    show ?thesis
    proof (cases x)
      case None
      with Inr Cons.prems have "readBody stmts acc = Inr out" by simp
      from Cons.IH [OF this] Inr None show ?thesis by (simp add: statementRecords_def)
    next
      case (Some ex)
      with Inr Cons.prems have "readBody stmts (acc @ ex) = Inr out" by simp
      from Cons.IH [OF this] Inr Some show ?thesis by (simp add: statementRecords_def)
    qed
  qed
qed

lemma readBody_no_error:
  "\<forall>s \<in> set stmts. \<not> isl (readModuleExports s) \<Longrightarrow>
   readBody stmts acc = Inr (acc @ concat (map statementRecords stmts))"
proof (induction stmts arbitrary: acc)
  case Nil
  then show ?case by simp
next
  case (Cons s stmts)
  then obtain x where x: "readModuleExports s = Inr x"
    by (cases "readModuleExports s") auto
  show ?case
    using Cons x by (cases x) (simp_all add: statementRecords_def)
qed

lemma readBody_Inr_no_error:
  "readBody stmts acc = Inr out \<Longrightarrow> \<forall>s \<in> set stmts. \<not> isl (readModuleExports s)"
  by (induction stmts arbitrary: acc) (auto split: sum.splits option.splits)

lemma keyString_Inr: "keyString key = Inr k \<Longrightarrow> key = StringLiteral k"
  by (cases key) simp_all

lemma leafModules_nonempty: "(segs, body) \<in> set (leafModules ps) \<Longrightarrow> segs \<noteq> []"
  by (induction ps arbitrary: segs body rule: leafModules.induct) fastforce+

lemma joinSlash_Cons: "segs \<noteq> [] \<Longrightarrow> joinSlash (k # segs) = k @ ''/'' @ joinSlash segs"
  by (cases segs) simp_all

lemma leafEntries_Nil [simp]: "leafEntries pp [] = []"
  by (simp add: leafEntries_def)

lemma leafEntries_nested:
  "leafEntries pp (ObjectProperty (StringLiteral k) (ObjectExpression ps) # rest) =
     leafEntries ((pp @ k) @ ''/'') ps @ leafEntries pp rest"
  by (auto simp: leafEntries_def joinSlash_Cons dest: leafModules_nonempty)

lemma leafEntries_leaf:
  "leafEntries pp (ObjectProperty (StringLiteral k) (FunctionExpression params body) # rest) =
     (pp @ k, concat (map statementRecords body)) # leafEntries pp rest"
  by (simp add: leafEntries_def)

lemma traverseModules_entries:
  "traverseModules ps pp mods = Inr mods' \<Longrightarrow>
   mods' = foldl put mods (leafEntries pp ps) \<and> wellFormedModules ps"
proof (induction ps pp mods arbitrary: mods' rule: traverseModules.induct)
  case (1 parentPath mods)
  then show ?case by simp
next
  case (2 key ps rest parentPath mods)
  from "2.prems" obtain k m1 where k: "keyString key = Inr k"
    and t1: "traverseModules ps ((parentPath @ k) @ ''/'') mods = Inr m1"
    and t2: "traverseModules rest parentPath m1 = Inr mods'"
    by (auto split: sum.splits)
  from "2.IH"(1) [OF k t1] "2.IH"(2) [OF k t1 t2] keyString_Inr [OF k] show ?case
    by (simp add: leafEntries_nested)
next
  case (3 key params body rest parentPath mods)
  from "3.prems" obtain k ex where k: "keyString key = Inr k"
    and b: "readBody body [] = Inr ex"
    and t: "traverseModules rest parentPath (assignProperty mods (parentPath @ k) ex) = Inr mods'"
    by (auto split: sum.splits)
  from readBody_records [OF b] have ex: "ex = concat (map statementRecords body)" by simp
  from "3.IH" [OF k b t] keyString_Inr [OF k] readBody_Inr_no_error [OF b] show ?case
    by (simp add: leafEntries_leaf ex put_def list_all_iff)
qed (auto split: sum.splits)

lemma traverseModules_wellFormed:
  "wellFormedModules ps \<Longrightarrow> \<exists>mods'. traverseModules ps pp mods = Inr mods'"
proof (induction ps arbitrary: pp mods rule: wellFormedModules.induct)
  case 1
  then show ?case by simp
next
  case (2 k ps rest)
  from "2.prems" have w1: "wellFormedModules ps" and w2: "wellFormedModules rest" by auto
  from "2.IH"(1) [OF w1] obtain m1 where
    t1: "traverseModules ps ((pp @ k) @ ''/'') mods = Inr m1" by blast
  from "2.IH"(2) [OF w2, of pp m1] t1 show ?case by simp
next
  case (3 k params body rest)
  from "3.prems" have b: "\<forall>s \<in> set body. \<not> isl (readModuleExports s)"
    and w: "wellFormedModules rest"
    by (auto simp: list_all_iff)
  from readBody_no_error [OF b, of "[]"] obtain ex where r: "readBody body [] = Inr ex" by simp
  from "3.IH" [OF w, of pp "assignProperty mods (pp @ k) ex"] show ?case by (simp add: r)
qed simp_all

lemma traverseModules_eq:
  "wellFormedModules ps \<Longrightarrow> traverseModules ps pp mods = Inr (foldl put mods (leafEntries pp ps))"
  using traverseModules_wellFormed [of ps pp mods] traverseModules_entries [of ps pp mods]
  by auto

lemma put_pair:
  "put mods (p, v) = (if p = ''__proto__'' then mods else mods(p \<mapsto> v))"
  by (simp add: put_def assignProperty_def)

lemma put_dom: "dom (foldl put mods es) = dom mods \<union> (fst ` set es - {''__proto__''})"
proof (induction es arbitrary: mods)
  case Nil
  then show ?case by simp
next
  case (Cons e es)
  obtain p v where e: "e = (p, v)" by (cases e)
  show ?case
    by (simp add: Cons.IH e put_pair) auto
qed

lemma put_other: "p \<notin> fst ` set es \<Longrightarrow> foldl put mods es p = mods p"
proof (induction es arbitrary: mods)
  case Nil
  then show ?case by simp
next
  case (Cons e es)
  obtain q v where e: "e = (q, v)" by (cases e)
  from Cons.prems have "p \<notin> fst ` set es" and "q \<noteq> p" by (auto simp: e)
  then show ?case
    by (simp add: Cons.IH e put_pair)
qed

lemma put_last:
  "p \<noteq> ''__proto__'' \<Longrightarrow> p \<notin> fst ` set after \<Longrightarrow>
   foldl put mods (before @ (p, v) # after) p = Some v"
  by (simp add: put_other put_pair)

lemma installer_wellFormed:
  "wellFormedModules packageModules \<Longrightarrow>
   parseMeteorInstall (installer nm packageModules extra) =
     Inr (Some (nm, foldl put Map.empty (leafEntries [] packageModules)))"
  by (simp add: parseMeteorInstall_installer traverseModules_eq)

lemma installer_entries:
  assumes "parseMeteorInstall (installer nm packageModules extra) = Inr (Some (nm', mods))"
  shows "nm' = nm \<and> mods = foldl put Map.empty (leafEntries [] packageModules)
         \<and> wellFormedModules packageModules"
proof -
  from assms have "traverseModules packageModules [] Map.empty = Inr mods \<and> nm' = nm"
    by (auto simp: parseMeteorInstall_installer split: sum.splits)
  then show ?thesis using traverseModules_entries by blast
qed

lemma leafEntries_paths: "map fst (leafEntries [] ps) = leafPaths ps"
  by (simp add: leafEntries_def leafPaths_def case_prod_unfold)


lemma leaf_entry:
  assumes w: "wellFormedModules packageModules"
    and l: "leafModules packageModules = before @ (segs, body) # after"
    and q: "joinSlash segs \<noteq> ''__proto__''"
    and n: "joinSlash segs \<notin> set (map (\<lambda>(segs, body). joinSlash segs) after)"
  shows "foldl put Map.empty (leafEntries [] packageModules) (joinSlash segs) =
           Some (concat (map statementRecords body))"
proof -
  let ?f = "\<lambda>(segs, body). ([] @ joinSlash segs, concat (map statementRecords body))"
  have e: "leafEntries [] packageModules =
             map ?f before @ (joinSlash segs, concat (map statementRecords body)) # map ?f after"
    by (simp add: leafEntries_def l)
  have "fst ` set (map ?f after) = set (map (\<lambda>(segs, body). joinSlash segs) after)"
    by (force simp: image_iff)
  with n have "joinSlash segs \<notin> fst ` set (map ?f after)" by simp
  from put_last [OF q this] show ?thesis by (simp add: e)
qed

lemma leaf_key:
  assumes l: "(segs, body) \<in> set (leafModules packageModules)"
    and q: "joinSlash segs \<noteq> ''__proto__''"
  shows "joinSlash segs \<in> dom (foldl put Map.empty (leafEntries [] packageModules))"
proof -
  from l have "joinSlash segs \<in> set (leafPaths packageModules)"
    by (force simp: leafPaths_def)
  then have "joinSlash segs \<in> fst ` set (leafEntries [] packageModules)"
    by (simp flip: leafEntries_paths)
  with q show ?thesis by (simp add: put_dom)
qed

lemma installer_keys:
  assumes "parseMeteorInstall (installer nm packageModules extra) = Inr (Some (nm', mods))"
  shows "dom mods = set (leafPaths packageModules) - {''__proto__''}
       \<and> card (dom mods) \<le> length (leafModules packageModules)
       \<and> (distinct (leafPaths packageModules) \<and> ''__proto__'' \<notin> set (leafPaths packageModules) \<longrightarrow>
            card (dom mods) = length (leafModules packageModules))"
proof -
  from installer_entries [OF assms]
  have m: "mods = foldl put Map.empty (leafEntries [] packageModules)" by simp
  have d: "dom mods = set (leafPaths packageModules) - {''__proto__''}"
    using put_dom [of Map.empty "leafEntries [] packageModules"]
    by (simp add: m flip: leafEntries_paths)
  have "card (dom mods) \<le> card (set (leafPaths packageModules))"
    unfolding d by (intro card_mono) auto
  also have "\<dots> \<le> length (leafPaths packageModules)" by (rule card_length)
  finally have l: "card (dom mods) \<le> length (leafModules packageModules)"
    by (simp add: leafPaths_def)
  have e: "card (dom mods) = length (leafModules packageModules)"
    if "distinct (leafPaths packageModules) \<and> ''__proto__'' \<notin> set (leafPaths packageModules)"
  proof -
    from that have "dom mods = set (leafPaths packageModules)" by (simp add: d)
    then have "card (dom mods) = length (leafPaths packageModules)"
      using that by (simp add: distinct_card)
    then show ?thesis by (simp add: leafPaths_def)
  qed
  show ?thesis using d l e by blast
qed

text \<open>
  C1 (as amended). When the recognizer returns for an installer call, the keys of the
  modules map are exactly the slash-joined key paths of the \<open>N\<close> leaf modules, less the
  path \<^verbatim>\<open>__proto__\<close>, so the map has at most \<open>N\<close> entries; leaves whose joined paths
  coincide share one entry, and a leaf at the path \<^verbatim>\<open>__proto__\<close> has none. When the joined
  paths of the leaves are pairwise distinct and none is \<^verbatim>\<open>__proto__\<close>, the map has exactly
  \<open>N\<close> entries. The recognizer does return when the properties of the package object are
  well formed.
\<close>

theorem installer_module_paths:
  "(parseMeteorInstall (installer nm packageModules extra) = Inr (Some (nm', mods)) \<longrightarrow>
      dom mods = set (leafPaths packageModules) - {''__proto__''}
      \<and> card (dom mods) \<le> length (leafModules packageModules)
      \<and> (distinct (leafPaths packageModules) \<and> ''__proto__'' \<notin> set (leafPaths packageModules) \<longrightarrow>
           card (dom mods) = length (leafModules packageModules)))
   \<and> (wellFormedModules packageModules \<longrightarrow>
      (\<exists>mods'. parseMeteorInstall (installer nm packageModules extra) = Inr (Some (nm, mods'))))"
proof (intro conjI impI)
  assume "wellFormedModules packageModules"
  then show "\<exists>mods'. parseMeteorInstall (installer nm packageModules extra) = Inr (Some (nm, mods'))"
    by (simp add: installer_wellFormed)
qed (use installer_keys in blast)+

lemmas statement_defs =
  exportStatement_def exportDefaultStatement_def linkStatement_def linkExample_def
  moduleCall_def moduleLink_def is_module_name_def is_digit_def formatExports_def
  formatExport_def some_result_def nth_opt_def

lemma parseMeteorInstall_demoModules:
  "parseMeteorInstall (installer ''pkg:demo'' demoModules []) =
     Inr (Some (''pkg:demo'', [''index.js'' \<mapsto> demoRecords, ''sub/a.js'' \<mapsto> []]))"
  by (simp add: parseMeteorInstall_installer demoModules_def demoBody_def demoRecords_def
      statement_defs assignProperty_def)

lemma leafModules_demoModules:
  "leafModules demoModules = [([''index.js''], demoBody), ([''sub'', ''a.js''], [])]"
  by (simp add: demoModules_def)

lemma no_error_demoBody: "\<forall>s \<in> set demoBody. \<not> isl (readModuleExports s)"
  by (simp add: demoBody_def statement_defs)

lemma wellFormed_demoModules: "wellFormedModules demoModules"
  using no_error_demoBody by (simp add: demoModules_def list_all_iff)

theorem installer_module_paths_witness:
  "dom [''index.js'' \<mapsto> demoRecords, ''sub/a.js'' \<mapsto> []] = set (leafPaths demoModules)
   \<and> leafPaths demoModules = [''index.js'', ''sub/a.js'']
   \<and> card (dom [''index.js'' \<mapsto> demoRecords, ''sub/a.js'' \<mapsto> []]) = 2
   \<and> (\<exists>mods'. parseMeteorInstall (installer ''pkg:demo'' demoModules []) =
         Inr (Some (''pkg:demo'', mods')))"
  using installer_module_paths [where nm = "''pkg:demo''" and packageModules = demoModules
      and extra = "[]" and nm' = "''pkg:demo''"
      and mods = "[''index.js'' \<mapsto> demoRecords, ''sub/a.js'' \<mapsto> []]"]
    parseMeteorInstall_demoModules wellFormed_demoModules
  by (simp add: leafPaths_def leafModules_demoModules)

text \<open>
  C1 as stated fails in two ways. The two leaves of the first package object, \<^verbatim>\<open>sub\<close> /
  \<^verbatim>\<open>a.js\<close> and \<^verbatim>\<open>sub/a.js\<close>, have the same joined path: the second assignment replaces the
  first, and the modules map has one entry for two leaves. The leaf of the second package
  object has the path \<^verbatim>\<open>__proto__\<close>: the modules map has no entry for it.
\<close>

theorem installer_module_paths_counterexample:
  "leafModules collidingModules =
     [([''sub'', ''a.js''],
       [exportStatement [ObjectProperty (Identifier ''first'')
          (OtherNode ''ArrowFunctionExpression'' [Identifier ''first''])]]),
      ([''sub/a.js''], [])]
   \<and> parseMeteorInstall (installer ''pkg'' collidingModules []) =
       Inr (Some (''pkg'', [''sub/a.js'' \<mapsto> []]))
   \<and> leafModules protoModules = [([''__proto__''], [])]
   \<and> parseMeteorInstall (installer ''pkg'' protoModules []) = Inr (Some (''pkg'', Map.empty))"
  by (simp add: parseMeteorInstall_installer collidingModules_def protoModules_def
      statement_defs assignProperty_def)


section \<open>Records of a module body\<close>

lemma wrapper_records:
  "readModuleExports (mainModuleWrapper params stmts p args) = some_result (readBody stmts [])"
  by (simp add: mainModuleWrapper_def)

text \<open>
  C7 (as amended). The record list built for a function body is the concatenation, in
  source order, of the records of its statements: for the loop over a leaf module's body,
  and for the main-module wrapper, whose statement yields the concatenated records of the
  statements inside it; three statements with the records \<open>ea\<close>, \<open>eb\<close>, \<open>ec\<close> give
  \<open>ea @ eb @ ec\<close>. For a well-formed package object the recognizer returns, and the list
  at a leaf's path in the modules map is that concatenation, for every leaf whose path is not
  \<^verbatim>\<open>__proto__\<close> and is not written again by a later leaf.
\<close>

theorem records_in_source_order:
  "((\<forall>s \<in> set stmts. \<not> isl (readModuleExports s)) \<longrightarrow>
      readBody stmts [] = Inr (concat (map statementRecords stmts))
      \<and> readModuleExports (mainModuleWrapper params stmts p args) =
          Inr (Some (concat (map statementRecords stmts))))
   \<and> (readModuleExports sa = Inr (Some ea) \<and> readModuleExports sb = Inr (Some eb)
       \<and> readModuleExports sc = Inr (Some ec) \<longrightarrow>
      readBody [sa, sb, sc] [] = Inr (ea @ eb @ ec)
      \<and> readModuleExports (mainModuleWrapper params [sa, sb, sc] p args) =
          Inr (Some (ea @ eb @ ec)))
   \<and> (wellFormedModules packageModules
       \<and> leafModules packageModules = before @ (segs, body) # after
       \<and> joinSlash segs \<noteq> ''__proto__''
       \<and> joinSlash segs \<notin> set (map (\<lambda>(segs, body). joinSlash segs) after) \<longrightarrow>
      (\<exists>mods. parseMeteorInstall (installer nm packageModules extra) = Inr (Some (nm, mods))
         \<and> mods (joinSlash segs) = Some (concat (map statementRecords body))))"
proof (intro conjI impI)
  assume a: "\<forall>s \<in> set stmts. \<not> isl (readModuleExports s)"
  from readBody_no_error [OF a, of "[]"]
  show b: "readBody stmts [] = Inr (concat (map statementRecords stmts))" by simp
  show "readModuleExports (mainModuleWrapper params stmts p args) =
          Inr (Some (concat (map statementRecords stmts)))"
    by (simp add: wrapper_records b some_result_def)
next
  assume a: "readModuleExports sa = Inr (Some ea) \<and> readModuleExports sb = Inr (Some eb)
       \<and> readModuleExports sc = Inr (Some ec)"
  then show b: "readBody [sa, sb, sc] [] = Inr (ea @ eb @ ec)" by simp
  show "readModuleExports (mainModuleWrapper params [sa, sb, sc] p args) =
          Inr (Some (ea @ eb @ ec))"
    by (simp only: wrapper_records b) (simp add: some_result_def)
next
  assume a: "wellFormedModules packageModules
       \<and> leafModules packageModules = before @ (segs, body) # after
       \<and> joinSlash segs \<noteq> ''__proto__''
       \<and> joinSlash segs \<notin> set (map (\<lambda>(segs, body). joinSlash segs) after)"
  then have "foldl put Map.empty (leafEntries [] packageModules) (joinSlash segs) =
           Some (concat (map statementRecords body))"
    by (intro leaf_entry) auto
  with a show "\<exists>mods. parseMeteorInstall (installer nm packageModules extra) = Inr (Some (nm, mods))
         \<and> mods (joinSlash segs) = Some (concat (map statementRecords body))"
    by (simp add: installer_wellFormed)
qed

lemma statementRecords_demoBody:
  "map statementRecords demoBody =
     [[\<lparr>ex_name = ''Foo'', ex_type = Export, ex_id = None, ex_from = None, ex_as = None\<rparr>],
      [\<lparr>ex_name = ''Meteor'', ex_type = ReExport, ex_id = Some 3,
         ex_from = Some ''meteor/meteor'', ex_as = Some ''MyMeteor''\<rparr>,
       \<lparr>ex_name = ''Tracker'', ex_type = ReExport, ex_id = Some 3,
         ex_from = Some ''meteor/meteor'', ex_as = None\<rparr>,
       \<lparr>ex_name = ''Meteor'', ex_type = GlobalBinding, ex_id = Some 3,
         ex_from = Some ''meteor/meteor'', ex_as = None\<rparr>],
      [],
      [\<lparr>ex_name = ''x'', ex_type = ExportDefault, ex_id = None, ex_from = None, ex_as = None\<rparr>]]"
  by (simp add: demoBody_def statementRecords_def statement_defs)

theorem records_in_source_order_witness:
  "readBody demoBody [] = Inr demoRecords
   \<and> readModuleExports
       (mainModuleWrapper [] demoBody (Identifier ''call'') [OtherNode ''ThisExpression'' []]) =
       Inr (Some demoRecords)
   \<and> readBody
       [exportDefaultStatement ''a'', exportDefaultStatement ''b'', exportDefaultStatement ''c''] [] =
       Inr [\<lparr>ex_name = ''a'', ex_type = ExportDefault, ex_id = None, ex_from = None, ex_as = None\<rparr>,
            \<lparr>ex_name = ''b'', ex_type = ExportDefault, ex_id = None, ex_from = None, ex_as = None\<rparr>,
            \<lparr>ex_name = ''c'', ex_type = ExportDefault, ex_id = None, ex_from = None, ex_as = None\<rparr>]
   \<and> (\<exists>mods. parseMeteorInstall (installer ''pkg:demo'' demoModules []) =
          Inr (Some (''pkg:demo'', mods))
        \<and> mods ''index.js'' = Some demoRecords)"
  using records_in_source_order [where stmts = demoBody and params = "[]"
      and p = "Identifier ''call''" and args = "[OtherNode ''ThisExpression'' []]"
      and sa = "exportDefaultStatement ''a''" and sb = "exportDefaultStatement ''b''"
      and sc = "exportDefaultStatement ''c''"
      and ea = "[\<lparr>ex_name = ''a'', ex_type = ExportDefault, ex_id = None, ex_from = None, ex_as = None\<rparr>]"
      and eb = "[\<lparr>ex_name = ''b'', ex_type = ExportDefault, ex_id = None, ex_from = None, ex_as = None\<rparr>]"
      and ec = "[\<lparr>ex_name = ''c'', ex_type = ExportDefault, ex_id = None, ex_from = None, ex_as = None\<rparr>]"
      and nm = "''pkg:demo''" and packageModules = demoModules and extra = "[]"
      and before = "[]" and segs = "[''index.js'']" and body = demoBody
      and after = "[([''sub'', ''a.js''], [])]"]
    no_error_demoBody wellFormed_demoModules leafModules_demoModules
    statementRecords_demoBody
  by (simp add: demoRecords_def exportDefaultStatement_def moduleCall_def is_module_name_def
      nth_opt_def)

text \<open>
  C7 as stated fails in two ways. In the first package object the first leaf's body has an
  export statement with one record, and the second leaf writes the same path \<^verbatim>\<open>a.js\<close>
  again: the list at that path is the second leaf's, the empty list. In the second package
  object the leaf's path is \<^verbatim>\<open>__proto__\<close>: the modules map has no list for it.
\<close>

theorem records_in_source_order_counterexample:
  "leafModules repeatedKeyModules =
     [([''a.js''], [exportDefaultStatement ''x'']), ([''a.js''], [])]
   \<and> readModuleExports (exportDefaultStatement ''x'') =
       Inr (Some [\<lparr>ex_name = ''x'', ex_type = ExportDefault, ex_id = None, ex_from = None,
                    ex_as = None\<rparr>])
   \<and> parseMeteorInstall (installer ''pkg'' repeatedKeyModules []) =
       Inr (Some (''pkg'', [''a.js'' \<mapsto> []]))
   \<and> leafModules protoExportModules = [([''__proto__''], [exportDefaultStatement ''x''])]
   \<and> parseMeteorInstall (installer ''pkg'' protoExportModules []) =
       Inr (Some (''pkg'', Map.empty))"
  by (simp add: parseMeteorInstall_installer repeatedKeyModules_def protoExportModules_def
      statement_defs assignProperty_def)


section \<open>Validation\<close>

lemma enter_modules_keep:
  assumes "\<not> isInstallerCall nd" and "enter r nd = Inr r'"
  shows "modules r' = modules r"
  using assms
  by (auto simp: enter_def parseMeteorInstall_not_call Let_def split: sum.splits option.splits)

lemma traverse_modules_keep:
  "\<forall>nd \<in> set ns. \<not> isInstallerCall nd \<Longrightarrow> traverse ns r = Inr r' \<Longrightarrow> modules r' = modules r"
proof (induction ns arbitrary: r)
  case Nil
  then show ?case by simp
next
  case (Cons nd ns)
  from Cons.prems obtain r1 where e: "enter r nd = Inr r1" and t: "traverse ns r1 = Inr r'"
    by (auto split: sum.splits)
  have "modules r1 = modules r" using Cons.prems e by (auto intro: enter_modules_keep)
  with Cons.IH [of r1] Cons.prems t show ?case by simp
qed

lemma silent_body:
  "\<forall>s \<in> set body. readModuleExports s = Inr None \<Longrightarrow> concat (map statementRecords body) = []"
  by (induction body) (simp_all add: statementRecords_def)

text \<open>
  C10 (as amended). In a well-formed package object, a leaf module whose statements are all
  unrecognized and whose path is not \<^verbatim>\<open>__proto__\<close> has an entry at its path in the modules
  map of the installer call, and the entry's list is empty unless a later leaf writes the
  same path again. A result whose modules map has a key passes the empty-result test of
  \<^verbatim>\<open>parseMeteorPackage\<close>: the only failure left is the missing name. So when the last
  installer call of the traversal has a non-empty package-name key and a leaf module with a
  path other than \<^verbatim>\<open>__proto__\<close>, and the traversal returns, \<^verbatim>\<open>parseMeteorPackage\<close> returns
  the result, with an entry at that path.
\<close>

theorem silent_module_entry:
  "(wellFormedModules packageModules
      \<and> leafModules packageModules = before @ (segs, body) # after
      \<and> (\<forall>s \<in> set body. readModuleExports s = Inr None)
      \<and> joinSlash segs \<noteq> ''__proto__'' \<longrightarrow>
      (\<exists>mods. parseMeteorInstall (installer nm packageModules extra) = Inr (Some (nm, mods))
         \<and> joinSlash segs \<in> dom mods
         \<and> (joinSlash segs \<notin> set (map (\<lambda>(segs, body). joinSlash segs) after) \<longrightarrow>
              mods (joinSlash segs) = Some [])))
   \<and> (parseSource source = Inr r \<and> dom (modules r) \<noteq> {} \<longrightarrow>
      parseMeteorPackage filePath source =
        (if name r = []
         then Inl (ParserError (''Could not extract name from package in: '' @ filePath))
         else Inr r))
   \<and> (preorder source = before' @ installer nm packageModules extra # after'
      \<and> nm \<noteq> [] \<and> (\<forall>nd \<in> set after'. \<not> isInstallerCall nd)
      \<and> leafModules packageModules = before @ (segs, body) # after
      \<and> joinSlash segs \<noteq> ''__proto__''
      \<and> parseSource source = Inr r \<longrightarrow>
      parseMeteorPackage filePath source = Inr r \<and> joinSlash segs \<in> dom (modules r))"
proof (intro conjI impI)
  assume a: "wellFormedModules packageModules
      \<and> leafModules packageModules = before @ (segs, body) # after
      \<and> (\<forall>s \<in> set body. readModuleExports s = Inr None)
      \<and> joinSlash segs \<noteq> ''__proto__''"
  let ?mods = "foldl put Map.empty (leafEntries [] packageModules)"
  have p: "parseMeteorInstall (installer nm packageModules extra) = Inr (Some (nm, ?mods))"
    using a by (simp add: installer_wellFormed)
  have k: "joinSlash segs \<in> dom ?mods"
    using a by (intro leaf_key [where body = body]) auto
  have e: "?mods (joinSlash segs) = Some []"
    if "joinSlash segs \<notin> set (map (\<lambda>(segs, body). joinSlash segs) after)"
  proof -
    have "?mods (joinSlash segs) = Some (concat (map statementRecords body))"
      using a that by (intro leaf_entry) auto
    with a show ?thesis by (simp add: silent_body)
  qed
  show "\<exists>mods. parseMeteorInstall (installer nm packageModules extra) = Inr (Some (nm, mods))
         \<and> joinSlash segs \<in> dom mods
         \<and> (joinSlash segs \<notin> set (map (\<lambda>(segs, body). joinSlash segs) after) \<longrightarrow>
              mods (joinSlash segs) = Some [])"
    using p k e by blast
next
  assume "parseSource source = Inr r \<and> dom (modules r) \<noteq> {}"
  then show "parseMeteorPackage filePath source =
        (if name r = []
         then Inl (ParserError (''Could not extract name from package in: '' @ filePath))
         else Inr r)"
    by (simp add: parseMeteorPackage_def)
next
  assume a: "preorder source = before' @ installer nm packageModules extra # after'
      \<and> nm \<noteq> [] \<and> (\<forall>nd \<in> set after'. \<not> isInstallerCall nd)
      \<and> leafModules packageModules = before @ (segs, body) # after
      \<and> joinSlash segs \<noteq> ''__proto__''
      \<and> parseSource source = Inr r"
  then have p: "preorder source = before' @ installer nm packageModules extra # after'"
    and s: "parseSource source = Inr r"
    by simp_all
  have "traverse (before' @ installer nm packageModules extra # after') emptyResult = Inr r"
    using s unfolding parseSource_def p .
  then obtain r1 r2 where "traverse before' emptyResult = Inr r1"
    and e: "enter r1 (installer nm packageModules extra) = Inr r2"
    and t: "traverse after' r2 = Inr r"
    by (auto simp: traverse_append split: sum.splits)
  from enter_installer [OF e] obtain mods where
    m: "traverseModules packageModules [] Map.empty = Inr mods"
    and r2: "r2 = r1\<lparr>name := nm, modules := mods\<rparr>"
    by auto
  have nr: "name r = nm"
    using traverse_name_keep [of after' r2 r] a t r2 by simp
  have mr: "modules r = mods"
    using traverse_modules_keep [of after' r2 r] a t r2 by simp
  from traverseModules_entries [OF m]
  have me: "mods = foldl put Map.empty (leafEntries [] packageModules)" by simp
  have "joinSlash segs \<in> dom mods"
    unfolding me using a by (intro leaf_key [where body = body]) auto
  then show k: "joinSlash segs \<in> dom (modules r)" by (simp add: mr)
  then have "dom (modules r) \<noteq> {}" by blast
  then show "parseMeteorPackage filePath source = Inr r"
    using s a nr by (simp add: parseMeteorPackage_def)
qed

lemma parseSource_silentProgram:
  "parseSource silentProgram =
     Inr \<lparr>name = ''pkg:demo'', modules = [''index.js'' \<mapsto> []],
          packageScopeExports = Map.empty, mainModulePath = []\<rparr>"
  by (simp add: silentProgram_def silentModules_def installer_def traversal_defs)

lemma leafModules_silentModules:
  "leafModules silentModules =
     [([''index.js''],
       [OtherNode ''VariableDeclaration''
          [VariableDeclarator (Identifier ''x'') (Some (NumericLiteral 1))]])]"
  by (simp add: silentModules_def)

lemma wellFormed_silentModules: "wellFormedModules silentModules"
  by (simp add: silentModules_def)

theorem silent_module_entry_witness:
  "(\<exists>mods. parseMeteorInstall (installer ''pkg:demo'' silentModules []) =
          Inr (Some (''pkg:demo'', mods))
      \<and> ''index.js'' \<in> dom mods \<and> mods ''index.js'' = Some [])
   \<and> parseMeteorPackage ''pkg.js'' silentProgram =
       Inr \<lparr>name = ''pkg:demo'', modules = [''index.js'' \<mapsto> []],
            packageScopeExports = Map.empty, mainModulePath = []\<rparr>
   \<and> preorder silentProgram ! 3 = installer ''pkg:demo'' silentModules []"
  using silent_module_entry [where nm = "''pkg:demo''" and packageModules = silentModules
      and extra = "[]" and before = "[]" and segs = "[''index.js'']" and after = "[]"
      and body = "[OtherNode ''VariableDeclaration''
              [VariableDeclarator (Identifier ''x'') (Some (NumericLiteral 1))]]"
      and source = silentProgram and filePath = "''pkg.js''"
      and r = "\<lparr>name = ''pkg:demo'', modules = [''index.js'' \<mapsto> []],
          packageScopeExports = Map.empty, mainModulePath = []\<rparr>"
      and before' = "take 3 (preorder silentProgram)"
      and after' = "drop 4 (preorder silentProgram)"]
    parseSource_silentProgram wellFormed_silentModules leafModules_silentModules
  by (simp add: silentProgram_def silentModules_def installer_def isInstallerCall_def)

text \<open>
  C10 as stated fails in two ways. In the package object the first leaf has no statement
  and the second leaf writes the same path \<^verbatim>\<open>a.js\<close> again: the entry at that path is not
  the empty list. In the program the only leaf has no statement and the path \<^verbatim>\<open>__proto__\<close>:
  the modules map has no entry, and \<^verbatim>\<open>parseMeteorPackage\<close> raises the empty-result error.
\<close>

theorem silent_module_entry_counterexample:
  "leafModules shadowedSilentModules =
     [([''a.js''], []), ([''a.js''], [exportDefaultStatement ''x''])]
   \<and> parseMeteorInstall (installer ''pkg'' shadowedSilentModules []) =
       Inr (Some (''pkg'',
         [''a.js'' \<mapsto> [\<lparr>ex_name = ''x'', ex_type = ExportDefault, ex_id = None,
                              ex_from = None, ex_as = None\<rparr>]]))
   \<and> parseSource silentProtoProgram =
       Inr \<lparr>name = ''pkg'', modules = Map.empty, packageScopeExports = Map.empty,
            mainModulePath = []\<rparr>
   \<and> parseMeteorPackage ''pkg.js'' silentProtoProgram =
       Inl (ParserError
         ''No modules or package-scope exports could be extracted from package: pkg'')"
  by (simp add: parseMeteorInstall_installer shadowedSilentModules_def silentProtoProgram_def
      statement_defs assignProperty_def parseMeteorPackage_def installer_def traversal_defs)

end
